theory Spec2Isabelle
  imports Complex_Main
begin

section \<open>JavaScript numbers\<close>

text \<open>
  The optimizer computes on JavaScript numbers. They are modelled as exact reals extended
  with the three special values the code can observe: \<open>NaN\<close> and the two infinities
  (the line search starts its bracket at \<open>Infinity\<close>, and \<open>Number.isNaN\<close> guards the
  minimizer). Rounding and the sign of zero are not modelled: a finite operation is exact.
\<close>

datatype number = Fin real | PInf | NInf | NaN

fun sgn_number :: "number \<Rightarrow> int" where
  "sgn_number (Fin r) = (if r < 0 then -1 else if r = 0 then 0 else 1)"
| "sgn_number PInf = 1"
| "sgn_number NInf = -1"
| "sgn_number NaN = 0"

instantiation number :: "{plus, uminus, minus, times, inverse, abs, ord}"
begin

fun plus_number :: "number \<Rightarrow> number \<Rightarrow> number" where
  "plus_number (Fin a) (Fin b) = Fin (a + b)"
| "plus_number NaN _ = NaN"
| "plus_number _ NaN = NaN"
| "plus_number PInf NInf = NaN"
| "plus_number NInf PInf = NaN"
| "plus_number PInf _ = PInf"
| "plus_number _ PInf = PInf"
| "plus_number NInf _ = NInf"
| "plus_number _ NInf = NInf"

fun uminus_number :: "number \<Rightarrow> number" where
  "uminus_number (Fin a) = Fin (- a)"
| "uminus_number PInf = NInf"
| "uminus_number NInf = PInf"
| "uminus_number NaN = NaN"

definition minus_number :: "number \<Rightarrow> number \<Rightarrow> number" where
  "minus_number a b = a + (- b)"

fun times_number :: "number \<Rightarrow> number \<Rightarrow> number" where
  "times_number (Fin a) (Fin b) = Fin (a * b)"
| "times_number NaN _ = NaN"
| "times_number _ NaN = NaN"
| "times_number a b =
     (if sgn_number a * sgn_number b = 0 then NaN
      else if sgn_number a * sgn_number b = 1 then PInf else NInf)"

text \<open>Division by a zero divisor follows IEEE with a positive zero.\<close>

fun divide_number :: "number \<Rightarrow> number \<Rightarrow> number" where
  "divide_number NaN _ = NaN"
| "divide_number _ NaN = NaN"
| "divide_number (Fin a) (Fin b) =
     (if b \<noteq> 0 then Fin (a / b)
      else if a = 0 then NaN else if 0 < a then PInf else NInf)"
| "divide_number (Fin a) _ = Fin 0"
| "divide_number a (Fin b) =
     (if sgn_number a * (if b < 0 then -1 else 1) = 1 then PInf else NInf)"
| "divide_number _ _ = NaN"

definition inverse_number :: "number \<Rightarrow> number" where
  "inverse_number a = divide (Fin 1) a"

fun abs_number :: "number \<Rightarrow> number" where
  "abs_number (Fin a) = Fin \<bar>a\<bar>"
| "abs_number NaN = NaN"
| "abs_number _ = PInf"

fun less_number :: "number \<Rightarrow> number \<Rightarrow> bool" where
  "less_number (Fin a) (Fin b) = (a < b)"
| "less_number NaN _ = False"
| "less_number _ NaN = False"
| "less_number NInf b = (b \<noteq> NInf)"
| "less_number a PInf = (a \<noteq> PInf)"
| "less_number _ _ = False"

definition less_eq_number :: "number \<Rightarrow> number \<Rightarrow> bool" where
  "less_eq_number a b = (a < b \<or> (a = b \<and> a \<noteq> NaN))"

instance ..

end

text \<open>\<open>Number.isNaN\<close>, \<open>Math.sqrt\<close> and \<open>Math.max\<close> on numbers.\<close>

fun isNaN :: "number \<Rightarrow> bool" where
  "isNaN NaN = True"
| "isNaN _ = False"

fun Math_sqrt :: "number \<Rightarrow> number" where
  "Math_sqrt (Fin a) = (if a < 0 then NaN else Fin (sqrt a))"
| "Math_sqrt PInf = PInf"
| "Math_sqrt _ = NaN"

definition Math_max :: "number \<Rightarrow> number \<Rightarrow> number" where
  "Math_max a b = (if isNaN a \<or> isNaN b then NaN else if a < b then b else a)"

section \<open>Errors and vectors\<close>

text \<open>
  A thrown JavaScript exception is the left summand of the result. \<open>JSError msg\<close> is
  \<open>throw Error(msg)\<close> of the optimizer itself; \<open>TypeError\<close> is a property read on
  \<open>undefined\<close>; \<open>RangeError\<close> is the matrix library's complaint about dimensions.
\<close>

datatype js_error = JSError string | TypeError | RangeError

type_synonym 'a result = "js_error + 'a"

text \<open>
  Modelled from the spec: the vector helpers of \<open>utils/Util\<close> (\<open>dot\<close>, \<open>addv\<close>,
  \<open>subv\<close>, \<open>negv\<close>, \<open>scalev\<close>, \<open>normList\<close>, \<open>repeat\<close>, \<open>zip2\<close>, \<open>zip3\<close>) are
  not among the sources. They are the usual operations on number arrays; the binary ones
  reject operands of different lengths with an error. Sums accumulate from the left,
  starting at zero.
\<close>

definition sumN :: "number list \<Rightarrow> number" where
  "sumN xs = foldl (+) (Fin 0) xs"

definition length_error :: js_error where
  "length_error = JSError ''expected vectors of same length''"

definition dot :: "number list \<Rightarrow> number list \<Rightarrow> number result" where
  "dot xs ys =
     (if length xs \<noteq> length ys then Inl length_error
      else Inr (sumN (map2 (*) xs ys)))"

definition addv :: "number list \<Rightarrow> number list \<Rightarrow> number list result" where
  "addv xs ys =
     (if length xs \<noteq> length ys then Inl length_error
      else Inr (map2 (+) xs ys))"

definition subv :: "number list \<Rightarrow> number list \<Rightarrow> number list result" where
  "subv xs ys =
     (if length xs \<noteq> length ys then Inl length_error
      else Inr (map2 (-) xs ys))"

definition negv :: "number list \<Rightarrow> number list" where
  "negv xs = map uminus xs"

definition scalev :: "number \<Rightarrow> number list \<Rightarrow> number list" where
  "scalev c xs = map (\<lambda>x. c * x) xs"

definition normList :: "number list \<Rightarrow> number" where
  "normList xs = Math_sqrt (sumN (map (\<lambda>e. e * e) xs))"

definition repeat :: "nat \<Rightarrow> 'a \<Rightarrow> 'a list" where
  "repeat n x = replicate n x"

definition zip2 :: "'a list \<Rightarrow> 'b list \<Rightarrow> ('a \<times> 'b) list result" where
  "zip2 xs ys =
     (if length xs \<noteq> length ys then Inl length_error else Inr (zip xs ys))"

definition zip3 :: "'a list \<Rightarrow> 'b list \<Rightarrow> 'c list \<Rightarrow> ('a \<times> 'b \<times> 'c) list result" where
  "zip3 xs ys zs =
     (if length xs \<noteq> length ys \<or> length ys \<noteq> length zs then Inl length_error
      else Inr (zip xs (zip ys zs)))"

text \<open>
  The matrix library (\<open>ml-matrix\<close>) is external. A column vector is the list of its
  entries, so \<open>Matrix.columnVector\<close> and \<open>to1DArray\<close> are the identity; a square matrix
  is the list of its rows. Entrywise operations and \<open>dot\<close> on operands of different
  dimensions raise \<open>RangeError\<close>. The matrix product is the row-by-column sum, written
  out, since a zero entry times \<open>NaN\<close> or an infinity is \<open>NaN\<close>; \<open>lbfgsInner\<close> reaches
  it only with matching dimensions.
\<close>

type_synonym Matrix = "number list"

definition Matrix_sub :: "Matrix \<Rightarrow> Matrix \<Rightarrow> Matrix result" where
  "Matrix_sub a b =
     (if length a \<noteq> length b then Inl RangeError else Inr (map2 (-) a b))"

definition Matrix_add :: "Matrix \<Rightarrow> Matrix \<Rightarrow> Matrix result" where
  "Matrix_add a b =
     (if length a \<noteq> length b then Inl RangeError else Inr (map2 (+) a b))"

definition Matrix_mul :: "Matrix \<Rightarrow> number \<Rightarrow> Matrix" where
  "Matrix_mul a c = map (\<lambda>x. x * c) a"

definition Matrix_dot :: "Matrix \<Rightarrow> Matrix \<Rightarrow> number result" where
  "Matrix_dot a b =
     (if length a \<noteq> length b then Inl RangeError
      else Inr (sumN (map2 (*) a b)))"

definition Matrix_identity :: "nat \<Rightarrow> number list list" where
  "Matrix_identity n =
     map (\<lambda>i. map (\<lambda>k. if i = k then Fin 1 else Fin 0) [0..<n]) [0..<n]"

definition Matrix_scale :: "number list list \<Rightarrow> number \<Rightarrow> number list list" where
  "Matrix_scale h c = map (\<lambda>row. map (\<lambda>x. x * c) row) h"

definition Matrix_mmul :: "number list list \<Rightarrow> Matrix \<Rightarrow> Matrix result" where
  "Matrix_mmul h q =
     (if \<exists>row \<in> set h. length row \<noteq> length q then Inl RangeError
      else Inr (map (\<lambda>row. sumN (map2 (*) row q)) h))"

text \<open>Folding and mapping with a step that can throw: the first exception ends it.\<close>

fun reduceM :: "('b \<Rightarrow> 'a \<Rightarrow> 'b result) \<Rightarrow> 'a list \<Rightarrow> 'b \<Rightarrow> 'b result" where
  "reduceM g [] acc = Inr acc"
| "reduceM g (x # xs) acc =
     (case g acc x of Inl e \<Rightarrow> Inl e | Inr acc' \<Rightarrow> reduceM g xs acc')"

fun mapM :: "('a \<Rightarrow> 'b result) \<Rightarrow> 'a list \<Rightarrow> 'b list result" where
  "mapM g [] = Inr []"
| "mapM g (x # xs) =
     (case g x of Inl e \<Rightarrow> Inl e
      | Inr y \<Rightarrow> (case mapM g xs of Inl e \<Rightarrow> Inl e | Inr ys \<Rightarrow> Inr (y # ys)))"

definition nth_opt :: "'a list \<Rightarrow> nat \<Rightarrow> 'a option" where
  "nth_opt xs i = (if i < length xs then Some (xs ! i) else None)"

section \<open>The L-BFGS preconditioner\<close>

definition EPSD :: number where
  "EPSD = Fin (1 / 10 ^ 11)"

record LbfgsParams =
  lastState :: "Matrix option"
  lastGrad :: "Matrix option"
  s_list :: "Matrix list"
  y_list :: "Matrix list"
  numUnconstrSteps :: nat
  memSize :: nat

definition calculate_rho :: "Matrix \<Rightarrow> Matrix \<Rightarrow> number result" where
  "calculate_rho s y =
     (case Matrix_dot y s of Inl e \<Rightarrow> Inl e
      | Inr d \<Rightarrow> Inr (Fin 1 / (d + EPSD)))"

fun pull_q_back ::
  "Matrix \<times> number list \<Rightarrow> number \<times> Matrix \<times> Matrix \<Rightarrow> (Matrix \<times> number list) result" where
  "pull_q_back (q_i_plus_1, alphas2) (rho_i, s_i, y_i) =
     (case Matrix_dot s_i q_i_plus_1 of Inl e \<Rightarrow> Inl e
      | Inr d \<Rightarrow>
          (let alpha_i = rho_i * d in
           case Matrix_sub q_i_plus_1 (Matrix_mul y_i alpha_i) of Inl e \<Rightarrow> Inl e
           | Inr q_i \<Rightarrow> Inr (q_i, alphas2 @ [alpha_i])))"

text \<open>
  \<open>estimate_hess\<close> receives \<open>ys[0]\<close> and \<open>ss[0]\<close>, which are \<open>undefined\<close> when the
  history is empty; calling \<open>dot\<close> on \<open>undefined\<close> is a type error.
\<close>

fun estimate_hess :: "Matrix option \<Rightarrow> Matrix option \<Rightarrow> number list list result" where
  "estimate_hess (Some y_km1) (Some s_km1) =
     (case Matrix_dot s_km1 y_km1 of Inl e \<Rightarrow> Inl e
      | Inr sy \<Rightarrow>
          (case Matrix_dot y_km1 y_km1 of Inl e \<Rightarrow> Inl e
           | Inr yy \<Rightarrow>
               (let gamma_k = sy / (yy + EPSD); n = length y_km1
                in Inr (Matrix_scale (Matrix_identity n) gamma_k))))"
| "estimate_hess _ _ = Inl TypeError"

fun push_r_forward ::
  "Matrix \<Rightarrow> (number \<times> number) \<times> (Matrix \<times> Matrix) \<Rightarrow> Matrix result" where
  "push_r_forward r_i ((rho_i, alpha_i), (s_i, y_i)) =
     (case Matrix_dot y_i r_i of Inl e \<Rightarrow> Inl e
      | Inr d \<Rightarrow>
          (let beta_i = rho_i * d
           in Matrix_add r_i (Matrix_mul s_i (alpha_i - beta_i))))"

definition lbfgsInner :: "Matrix \<Rightarrow> Matrix list \<Rightarrow> Matrix list \<Rightarrow> Matrix result" where
  "lbfgsInner grad_fx_k ss ys =
     (case zip2 ss ys of Inl e \<Rightarrow> Inl e
      | Inr sys \<Rightarrow>
     (case mapM (\<lambda>(s, y). calculate_rho s y) sys of Inl e \<Rightarrow> Inl e
      | Inr rhos \<Rightarrow>
     (case zip3 rhos ss ys of Inl e \<Rightarrow> Inl e
      | Inr triples \<Rightarrow>
     (case reduceM pull_q_back triples (grad_fx_k, []) of Inl e \<Rightarrow> Inl e
      | Inr (q_k_minus_m, alphas) \<Rightarrow>
     (case estimate_hess (nth_opt ys 0) (nth_opt ss 0) of Inl e \<Rightarrow> Inl e
      | Inr h_0_k \<Rightarrow>
     (case Matrix_mmul h_0_k q_k_minus_m of Inl e \<Rightarrow> Inl e
      | Inr r_k_minus_m \<Rightarrow>
     (case zip2 rhos alphas of Inl e \<Rightarrow> Inl e
      | Inr ras \<Rightarrow>
     (case zip2 ras sys of Inl e \<Rightarrow> Inl e
      | Inr inputs \<Rightarrow> reduceM push_r_forward (rev inputs) r_k_minus_m))))))))"

record lbfgs_result =
  gradfxsPreconditioned :: "number list"
  updatedLbfgsInfo :: LbfgsParams

definition lbfgs :: "number list \<Rightarrow> number list \<Rightarrow> LbfgsParams \<Rightarrow> lbfgs_result result" where
  "lbfgs xs gradfxs lbfgsInfo =
     (if numUnconstrSteps lbfgsInfo = 0 then
        Inr \<lparr>gradfxsPreconditioned = gradfxs,
             updatedLbfgsInfo = lbfgsInfo
               \<lparr>lastState := Some xs, lastGrad := Some gradfxs,
                s_list := [], y_list := [], numUnconstrSteps := 1\<rparr>\<rparr>
      else
        (case (lastState lbfgsInfo, lastGrad lbfgsInfo) of
           (Some x_km1, Some grad_fx_km1) \<Rightarrow>
             (let x_k = xs; grad_fx_k = gradfxs;
                  km1 = numUnconstrSteps lbfgsInfo;
                  ss_km2 = s_list lbfgsInfo; ys_km2 = y_list lbfgsInfo
              in
              (case Matrix_sub x_k x_km1 of Inl e \<Rightarrow> Inl e
               | Inr s_km1 \<Rightarrow>
              (case Matrix_sub grad_fx_k grad_fx_km1 of Inl e \<Rightarrow> Inl e
               | Inr y_km1 \<Rightarrow>
              (let ss_km1 = take (memSize lbfgsInfo) (s_km1 # ss_km2);
                   ys_km1 = take (memSize lbfgsInfo) (y_km1 # ys_km2)
               in
              (case lbfgsInner grad_fx_k ss_km1 ys_km1 of Inl e \<Rightarrow> Inl e
               | Inr gradPreconditioned \<Rightarrow>
              (case Matrix_dot gradPreconditioned grad_fx_k of Inl e \<Rightarrow> Inl e
               | Inr d \<Rightarrow>
              (let descentDirCheck = Fin (- 1) * d in
               if Fin 0 < descentDirCheck then
                 Inr \<lparr>gradfxsPreconditioned = gradfxs,
                      updatedLbfgsInfo = lbfgsInfo
                        \<lparr>lastState := Some x_k, lastGrad := Some grad_fx_k,
                         s_list := [], y_list := [], numUnconstrSteps := 1\<rparr>\<rparr>
               else
                 Inr \<lparr>gradfxsPreconditioned = gradPreconditioned,
                      updatedLbfgsInfo = lbfgsInfo
                        \<lparr>lastState := Some x_k, lastGrad := Some grad_fx_k,
                         s_list := ss_km1, y_list := ys_km1,
                         numUnconstrSteps := km1 + 1\<rparr>\<rparr>)))))))
         | (_, _) \<Rightarrow> Inl (JSError ''Invalid L-BFGS state'')))"

section \<open>The oracle and the line search\<close>

text \<open>
  An oracle (\<open>FnCached\<close>) maps a point to its energy, gradient and per-term energies; as
  a JavaScript function it may throw. Record fields carry a short prefix where the
  source's field name (\<open>f\<close>, \<open>xs\<close>, \<open>t\<close>) would shadow a variable.
\<close>

record FnEvaled =
  fn_f :: number
  gradf :: "number list"
  fn_objEngs :: "number list"
  fn_constrEngs :: "number list"

type_synonym FnCached = "number list \<Rightarrow> FnEvaled result"

definition c1 :: number where
  "c1 = Fin (1 / 1000)"

definition c2 :: number where
  "c2 = Fin (9 / 10)"

text \<open>The literal \<open>10e-10\<close> is ten times ten to the minus ten.\<close>

definition minInterval :: number where
  "minInterval = Fin (10 / 10 ^ 10)"

definition armijo :: "number \<Rightarrow> number \<Rightarrow> number \<Rightarrow> number \<Rightarrow> bool" where
  "armijo fxs0 dufAtx0 ti objective =
     (let cond1 = objective; cond2 = fxs0 + c1 * ti * dufAtx0 in cond1 \<le> cond2)"

definition weakWolfe :: "number list \<Rightarrow> number \<Rightarrow> number \<Rightarrow> number list \<Rightarrow> bool result" where
  "weakWolfe descentDir dufAtx0 ti gradient =
     (case dot descentDir gradient of Inl e \<Rightarrow> Inl e
      | Inr cond1 \<Rightarrow> (let cond2 = c2 * dufAtx0 in Inr (cond2 \<le> cond1)))"

definition shouldStop :: "nat \<Rightarrow> nat \<Rightarrow> number \<Rightarrow> number \<Rightarrow> number \<Rightarrow> bool" where
  "shouldStop maxSteps numUpdates ai bi t =
     (let intervalTooSmall = \<bar>bi - ai\<bar> < minInterval;
          tooManySteps = maxSteps < numUpdates
      in intervalTooSmall \<or> tooManySteps)"

text \<open>
  The loop variables of the bracket search. The loop returns them all, so that a
  statement can say how the loop was left; \<open>awLineSearch2\<close> returns \<open>t\<close> alone.
  The last \<open>else\<close> of the body is the \<open>break\<close>.
\<close>

record ls_state =
  ls_a :: number
  ls_b :: number
  ls_t :: number
  ls_i :: nat

function awLoop ::
  "number list \<Rightarrow> FnCached \<Rightarrow> number list \<Rightarrow> number \<Rightarrow> number \<Rightarrow> nat \<Rightarrow> ls_state
     \<Rightarrow> ls_state result" where
  "awLoop xs0 f descentDir fxs0 dufAtx0 maxSteps st =
     (if shouldStop maxSteps (ls_i st) (ls_a st) (ls_b st) (ls_t st) then Inr st
      else
        (case addv xs0 (scalev (ls_t st) descentDir) of Inl e \<Rightarrow> Inl e
         | Inr p \<Rightarrow>
        (case f p of Inl e \<Rightarrow> Inl e
         | Inr r \<Rightarrow>
        (case weakWolfe descentDir dufAtx0 (ls_t st) (gradf r) of Inl e \<Rightarrow> Inl e
         | Inr isWolfe \<Rightarrow>
        (let isArmijo = armijo fxs0 dufAtx0 (ls_t st) (fn_f r) in
         if \<not> isArmijo \<or> \<not> isWolfe then
           (let st1 = (if \<not> isArmijo then st\<lparr>ls_b := ls_t st\<rparr> else st\<lparr>ls_a := ls_t st\<rparr>);
                st2 = (if ls_b st1 < PInf
                       then st1\<lparr>ls_t := (ls_a st1 + ls_b st1) / Fin 2\<rparr>
                       else st1\<lparr>ls_t := Fin 2 * ls_a st1\<rparr>)
            in awLoop xs0 f descentDir fxs0 dufAtx0 maxSteps (st2\<lparr>ls_i := ls_i st + 1\<rparr>))
         else Inr st)))))"
  by pat_completeness auto
termination
  by (relation "measure (\<lambda>(xs0, f, descentDir, fxs0, dufAtx0, maxSteps, st). maxSteps + 1 - ls_i st)")
     (auto simp: shouldStop_def Let_def)

declare awLoop.simps [simp del]

definition awLineSearch2 ::
  "number list \<Rightarrow> FnCached \<Rightarrow> number list \<Rightarrow> number \<Rightarrow> nat \<Rightarrow> number result" where
  "awLineSearch2 xs0 f gradfxs0 fxs0 maxSteps =
     (let descentDir = negv gradfxs0 in
      case f xs0 of Inl e \<Rightarrow> Inl e
      | Inr r0 \<Rightarrow>
     (case dot descentDir (gradf r0) of Inl e \<Rightarrow> Inl e
      | Inr dufAtx0 \<Rightarrow>
     (case awLoop xs0 f descentDir fxs0 dufAtx0 maxSteps
             \<lparr>ls_a = Fin 0, ls_b = PInf, ls_t = Fin 1, ls_i = 0\<rparr> of
        Inl e \<Rightarrow> Inl e
      | Inr st \<Rightarrow> Inr (ls_t st))))"

section \<open>The inner minimizer\<close>

definition uoStop :: number where
  "uoStop = Fin (1 / 100)"

definition USE_LINE_SEARCH :: bool where
  "USE_LINE_SEARCH = True"

definition BREAK_EARLY :: bool where
  "BREAK_EARLY = True"

definition unconstrainedConverged2 :: "number \<Rightarrow> bool" where
  "unconstrainedConverged2 normGrad = (normGrad < uoStop)"

text \<open>
  \<open>containsNaN\<close> loops with \<open>for (const n in numberList)\<close>, which binds \<open>n\<close> to the
  property keys of the array (the strings \<open>"0"\<close>, \<open>"1"\<close>, ...) and not to its entries.
  \<open>Number.isNaN\<close> does not coerce its argument: it is true of the number \<open>NaN\<close> only.
\<close>

datatype js_value = JSNumber number | JSString string

fun Number_isNaN :: "js_value \<Rightarrow> bool" where
  "Number_isNaN (JSNumber n) = isNaN n"
| "Number_isNaN (JSString _) = False"

fun string_of_nat :: "nat \<Rightarrow> string" where
  "string_of_nat n =
     (if n < 10 then [char_of (48 + n)]
      else string_of_nat (n div 10) @ [char_of (48 + n mod 10)])"

declare string_of_nat.simps [simp del]

definition array_keys :: "'a list \<Rightarrow> js_value list" where
  "array_keys xs = map (\<lambda>i. JSString (string_of_nat i)) [0..<length xs]"

definition containsNaN :: "number list \<Rightarrow> bool" where
  "containsNaN numberList = list_ex Number_isNaN (array_keys numberList)"

text \<open>Reading an array entry as a number: a missing entry is \<open>undefined\<close>, hence \<open>NaN\<close>.\<close>

definition num_at :: "number list \<Rightarrow> nat \<Rightarrow> number" where
  "num_at g j = (case nth_opt g j of Some v \<Rightarrow> v | None \<Rightarrow> NaN)"

text \<open>The variables of the loop of \<open>minimize\<close>, and the record it returns.\<close>

record min_state =
  m_xs :: "number list"
  m_fxs :: number
  m_gradfxs :: "number list"
  m_gradientPreconditioned :: "number list"
  m_normGradfxs :: number
  m_i :: int
  m_t :: number
  m_failed :: bool
  m_objEngs :: "number list"
  m_constrEngs :: "number list"
  m_newLbfgsInfo :: LbfgsParams

record OptInfo =
  oi_xs :: "number list"
  oi_energyVal :: number
  oi_normGrad :: number
  oi_newLbfgsInfo :: LbfgsParams
  oi_gradient :: "number list"
  oi_gradientPreconditioned :: "number list"
  oi_failed :: bool
  oi_objEngs :: "number list"
  oi_constrEngs :: "number list"

function minimize_loop :: "FnCached \<Rightarrow> int \<Rightarrow> min_state \<Rightarrow> min_state result" where
  "minimize_loop f numSteps st =
     (if m_i st < numSteps then
        (if containsNaN (m_xs st) then Inl (JSError ''NaN in xs'')
         else
        (case f (m_xs st) of Inl e \<Rightarrow> Inl e
         | Inr r \<Rightarrow>
        (let st1 = st\<lparr>m_fxs := fn_f r, m_gradfxs := gradf r,
                       m_objEngs := fn_objEngs r, m_constrEngs := fn_constrEngs r\<rparr>
         in
         if containsNaN (m_gradfxs st1) then Inl (JSError ''NaN in gradfxs'')
         else
        (case lbfgs (m_xs st1) (m_gradfxs st1) (m_newLbfgsInfo st1) of Inl e \<Rightarrow> Inl e
         | Inr lr \<Rightarrow>
        (let st2 = st1\<lparr>m_newLbfgsInfo := updatedLbfgsInfo lr,
                        m_gradientPreconditioned := gradfxsPreconditioned lr\<rparr>
         in
        (case dot (m_gradfxs st2) (gradfxsPreconditioned lr) of Inl e \<Rightarrow> Inl e
         | Inr ng \<Rightarrow>
        (let st3 = st2\<lparr>m_normGradfxs := ng\<rparr> in
         if BREAK_EARLY \<and> unconstrainedConverged2 (m_normGradfxs st3) then Inr st3
         else
        (case (if USE_LINE_SEARCH
               then awLineSearch2 (m_xs st3) f (gradfxsPreconditioned lr) (m_fxs st3) 10
               else Inr (m_t st3)) of Inl e \<Rightarrow> Inl e
         | Inr t \<Rightarrow>
        (let st4 = st3\<lparr>m_t := t\<rparr>;
             normGrad = normList (m_gradfxs st4)
         in
         if isNaN (m_fxs st4) \<or> isNaN normGrad then Inr (st4\<lparr>m_failed := True\<rparr>)
         else
           minimize_loop f numSteps
             (st4\<lparr>m_xs := map (\<lambda>j. m_xs st4 ! j - m_t st4 * num_at (gradfxsPreconditioned lr) j)
                              [0..<length (m_xs st4)],
                   m_i := m_i st4 + 1\<rparr>))))))))))
      else Inr st)"
  by pat_completeness auto
termination
  by (relation "measure (\<lambda>(f, numSteps, st). nat (numSteps - m_i st))") auto

declare minimize_loop.simps [simp del]

definition MIN_STEPS :: int where
  "MIN_STEPS = 1"

definition minimize :: "number list \<Rightarrow> FnCached \<Rightarrow> LbfgsParams \<Rightarrow> int \<Rightarrow> OptInfo result" where
  "minimize xs0 f lbfgsInfo numSteps =
     (if numSteps < MIN_STEPS
      then Inl (JSError ''must step at least 1 times in the optimizer'')
      else
        (case minimize_loop f numSteps
                \<lparr>m_xs = xs0, m_fxs = Fin 0,
                 m_gradfxs = repeat (length xs0) (Fin 0),
                 m_gradientPreconditioned = repeat (length xs0) (Fin 0),
                 m_normGradfxs = Fin 0, m_i = 0, m_t = Fin (1 / 10000),
                 m_failed = False, m_objEngs = [], m_constrEngs = [],
                 m_newLbfgsInfo = lbfgsInfo\<rparr> of
           Inl e \<Rightarrow> Inl e
         | Inr st \<Rightarrow>
             Inr \<lparr>oi_xs = m_xs st, oi_energyVal = m_fxs st,
                  oi_normGrad = m_normGradfxs st,
                  oi_newLbfgsInfo = m_newLbfgsInfo st, oi_gradient = m_gradfxs st,
                  oi_gradientPreconditioned = m_gradientPreconditioned st,
                  oi_failed = m_failed st, oi_objEngs = m_objEngs st,
                  oi_constrEngs = m_constrEngs st\<rparr>))"

section \<open>The computation graph and the energy\<close>

text \<open>
  The implicit graph type \<open>ad.Num\<close>, restricted to the node kinds the energy is built
  from: number literals, inputs, unary, binary and n-ary nodes. (Comparison, ternary,
  polynomial-root and index nodes occur only inside objective and constraint terms.)
\<close>

datatype unop = neg | squared

datatype binop = Plus | Times | Minus | Max | Min

datatype naryop = addN | maxN | minN

datatype Num =
    Const number
  | Input nat number
  | Unary unop Num
  | Binary binop Num Num
  | Nary naryop "Num list"

text \<open>
  Modelled from the spec: the graph constructors of \<open>engine/Autodiff\<close> and
  \<open>engine/AutodiffFunctions\<close> (\<open>input\<close>, \<open>add\<close>, \<open>mul\<close>, \<open>ops.vsum\<close>,
  \<open>fns.toPenalty\<close>) are not among the sources. \<open>add\<close> and \<open>mul\<close> build binary
  nodes, \<open>vsum\<close> an \<open>addN\<close> node, and the penalty of \<open>v\<close> is \<open>max(v, 0)\<close> squared.
\<close>

definition add :: "Num \<Rightarrow> Num \<Rightarrow> Num" where
  "add v w = Binary Plus v w"

definition mul :: "Num \<Rightarrow> Num \<Rightarrow> Num" where
  "mul v w = Binary Times v w"

definition vsum :: "Num list \<Rightarrow> Num" where
  "vsum v = Nary addN v"

definition toPenalty :: "Num \<Rightarrow> Num" where
  "toPenalty x = Unary squared (Binary Max x (Const (Fin 0)))"

text \<open>
  Modelled from the spec: the compiler \<open>genCode\<close> is not among the sources. \<open>evalNum\<close>
  is the value a compiled graph computes at an input array: an input node reads the
  array at its key, the other nodes apply their JavaScript operation.
\<close>

definition Math_min :: "number \<Rightarrow> number \<Rightarrow> number" where
  "Math_min a b = (if isNaN a \<or> isNaN b then NaN else if b < a then b else a)"

fun evalNum :: "number list \<Rightarrow> Num \<Rightarrow> number" where
  "evalNum inputs (Const c) = c"
| "evalNum inputs (Input k v) = num_at inputs k"
| "evalNum inputs (Unary neg x) = - evalNum inputs x"
| "evalNum inputs (Unary squared x) = evalNum inputs x * evalNum inputs x"
| "evalNum inputs (Binary Plus x y) = evalNum inputs x + evalNum inputs y"
| "evalNum inputs (Binary Times x y) = evalNum inputs x * evalNum inputs y"
| "evalNum inputs (Binary Minus x y) = evalNum inputs x - evalNum inputs y"
| "evalNum inputs (Binary Max x y) = Math_max (evalNum inputs x) (evalNum inputs y)"
| "evalNum inputs (Binary Min x y) = Math_min (evalNum inputs x) (evalNum inputs y)"
| "evalNum inputs (Nary addN xs) = foldl (+) (Fin 0) (map (evalNum inputs) xs)"
| "evalNum inputs (Nary maxN xs) = foldl Math_max NInf (map (evalNum inputs) xs)"
| "evalNum inputs (Nary minN xs) = foldl Math_min PInf (map (evalNum inputs) xs)"

text \<open>The literal \<open>10e4\<close> is ten times ten to the fourth.\<close>

definition constraintWeight :: number where
  "constraintWeight = Fin (10 * 10 ^ 4)"

definition evalEnergyOnCustom :: "Num \<Rightarrow> Num list \<Rightarrow> Num list \<Rightarrow> Num" where
  "evalEnergyOnCustom epWeightNode objEngs constrEngs =
     (let constrWeightNode = Const constraintWeight;
          objEng = vsum objEngs;
          constrEng = vsum (map toPenalty constrEngs);
          overallEng = add objEng (mul constrEng (mul constrWeightNode epWeightNode))
      in overallEng)"

section \<open>The optimizer state and the problem builder\<close>

datatype OptStatus =
  NewIter | UnconstrainedRunning | UnconstrainedConverged | EPConverged | Error

text \<open>
  Modelled from the spec: the types \<open>Params\<close> and \<open>State\<close> of \<open>types/state\<close> are not
  among the sources. They are records of the fields the optimizer reads and writes, with
  the statuses and fields the spec's data model lists. A field that \<open>genOptProblem\<close>
  leaves out is optional. The oracle factory takes the weight and an optional set of
  frozen indices.
\<close>

record Params =
  optStatus :: OptStatus
  weight :: number
  UOround :: nat
  EPround :: nat
  objectiveAndGradient :: "number \<Rightarrow> nat set option \<Rightarrow> FnCached"
  currObjectiveAndGradient :: FnCached
  lbfgsInfo :: LbfgsParams
  lastUOstate :: "number list option"
  lastUOenergy :: "number option"
  lastEPstate :: "number list option"
  lastEPenergy :: "number option"
  lastGradient :: "number list"
  lastGradientPreconditioned :: "number list"
  lastConstrEnergies :: "number list option"
  lastObjEnergies :: "number list option"
  energyGraph :: Num

record State =
  varyingValues :: "number list"
  frozenValues :: "nat set"
  params :: Params

text \<open>
  Modelled from the spec: \<open>defaultLbfgsParams\<close> of \<open>engine/EngineUtils\<close> is not among
  the sources. It is the state before the first call: counter zero, no history, no last
  point or gradient, and the default memory size 17. The other constant of that module,
  \<open>initConstraintWeight\<close>, is problem-supplied: it is a parameter of \<open>step\<close> and of
  \<open>genOptProblem\<close>.
\<close>

definition defaultLbfgsParams :: LbfgsParams where
  "defaultLbfgsParams =
     \<lparr>lastState = None, lastGrad = None, s_list = [], y_list = [],
      numUnconstrSteps = 0, memSize = 17\<rparr>"

text \<open>
  The compiled energy function (\<open>ad.Compiled\<close>) returns \<open>Outputs\<close>. Its gradient array
  may have holes, which \<open>i in gradient\<close> tests: it is a partial map on indices.
\<close>

record Outputs =
  gradient :: "nat \<Rightarrow> number option"
  primary :: number
  secondary :: "number list"

type_synonym Compiled = "number list \<Rightarrow> Outputs"

text \<open>
  Modelled from the spec: \<open>InputMeta\<close> of \<open>shapes/Samplers\<close> is not among the sources.
  Its tag says whether a parameter is optimized or pending; the builder reads nothing else.
\<close>

datatype InputTag = Optimized | Pending

record InputMeta =
  tag :: InputTag

text \<open>
  The closure \<open>objectiveAndGradient\<close> of \<open>genOptProblem\<close>, with the variables it
  captures (\<open>inputs\<close>, the compiled \<open>f\<close> and \<open>objEngs.length\<close>) as its first arguments.
  Reading \<open>meta.tag\<close> at an index beyond \<open>inputs\<close> is a type error.
\<close>

definition maskedGradient ::
  "InputMeta list \<Rightarrow> nat set option \<Rightarrow> (nat \<Rightarrow> number option) \<Rightarrow> nat \<Rightarrow> number result" where
  "maskedGradient inputs frozen grad i =
     (case grad i of None \<Rightarrow> Inr (Fin 0)
      | Some g \<Rightarrow>
          (case nth_opt inputs i of None \<Rightarrow> Inl TypeError
           | Some meta \<Rightarrow>
               Inr (if tag meta = Optimized \<and> frozen \<noteq> None \<and> i \<notin> the frozen
                    then g else Fin 0)))"

definition genOptProblem_objectiveAndGradient ::
  "InputMeta list \<Rightarrow> Compiled \<Rightarrow> nat \<Rightarrow> number \<Rightarrow> nat set option \<Rightarrow> FnCached" where
  "genOptProblem_objectiveAndGradient inputs f nObj epWeight frozen xs =
     (let out = f (xs @ [epWeight]) in
      case mapM (maskedGradient inputs frozen (gradient out)) [0..<length xs] of
        Inl e \<Rightarrow> Inl e
      | Inr g \<Rightarrow>
          Inr \<lparr>fn_f = primary out, gradf = g,
               fn_objEngs = take nObj (secondary out),
               fn_constrEngs = drop nObj (secondary out)\<rparr>)"

text \<open>
  \<open>genOptProblem\<close>. The graph compiler (\<open>genCode\<close> after \<open>makeGraph\<close>) is external: it is
  the parameter \<open>compile\<close>, from the primary and the secondary outputs to the compiled
  function.
\<close>

definition genOptProblem ::
  "number \<Rightarrow> (Num \<Rightarrow> Num list \<Rightarrow> Compiled) \<Rightarrow> InputMeta list \<Rightarrow> Num list \<Rightarrow> Num list \<Rightarrow> Params" where
  "genOptProblem initConstraintWeight compile inputs objEngs constrEngs =
     (let weight0 = initConstraintWeight;
          epWeightNode = Input (length inputs) weight0;
          energyGraph0 = evalEnergyOnCustom epWeightNode objEngs constrEngs;
          f = compile energyGraph0 (objEngs @ constrEngs);
          objAndGrad = genOptProblem_objectiveAndGradient inputs f (length objEngs)
      in \<lparr>optStatus = UnconstrainedRunning,
          weight = weight0,
          UOround = 0,
          EPround = 0,
          objectiveAndGradient = objAndGrad,
          currObjectiveAndGradient = objAndGrad weight0 (Some {}),
          lbfgsInfo = defaultLbfgsParams,
          lastUOstate = None, lastUOenergy = None,
          lastEPstate = None, lastEPenergy = None,
          lastGradient = repeat (length inputs) (Fin 0),
          lastGradientPreconditioned = repeat (length inputs) (Fin 0),
          lastConstrEnergies = None, lastObjEnergies = None,
          energyGraph = energyGraph0\<rparr>)"

section \<open>The exterior-point driver\<close>

definition weightGrowthFactor :: number where
  "weightGrowthFactor = Fin 10"

definition epStop :: number where
  "epStop = Fin (1 / 1000)"

text \<open>An optional number used in arithmetic: \<open>undefined\<close> becomes \<open>NaN\<close>.\<close>

definition num_of :: "number option \<Rightarrow> number" where
  "num_of v = (case v of Some n \<Rightarrow> n | None \<Rightarrow> NaN)"

definition epConverged2 ::
  "number list option \<Rightarrow> number list option \<Rightarrow> number option \<Rightarrow> number option \<Rightarrow> bool result" where
  "epConverged2 xs0 xs1 fxs0 fxs1 =
     (case (xs0, xs1) of
        (Some a, Some b) \<Rightarrow>
          (case subv b a of Inl e \<Rightarrow> Inl e
           | Inr d \<Rightarrow>
               (let stateChange = normList d;
                    energyChange = \<bar>num_of fxs1 - num_of fxs0\<bar>
                in Inr (stateChange < epStop \<or> energyChange < epStop)))
      | (_, _) \<Rightarrow> Inl TypeError)"

definition step :: "number \<Rightarrow> State \<Rightarrow> int \<Rightarrow> State result" where
  "step initConstraintWeight state steps =
     (let optParams = params state;
          xs = varyingValues state
      in
      case optStatus optParams of
        NewIter \<Rightarrow>
          Inr (state\<lparr>params := (params state)
                 \<lparr>currObjectiveAndGradient :=
                    objectiveAndGradient (params state) initConstraintWeight
                      (Some (frozenValues state)),
                  weight := initConstraintWeight,
                  UOround := 0,
                  EPround := 0,
                  optStatus := UnconstrainedRunning,
                  lbfgsInfo := defaultLbfgsParams\<rparr>\<rparr>)
      | UnconstrainedRunning \<Rightarrow>
          (case minimize xs (currObjectiveAndGradient (params state))
                  (lbfgsInfo (params state)) steps of
             Inl e \<Rightarrow> Inl e
           | Inr res \<Rightarrow>
               (let xs1 = oi_xs res;
                    optParams1 = optParams
                      \<lparr>lastUOstate := Some xs1,
                       lastUOenergy := Some (oi_energyVal res),
                       UOround := UOround optParams + 1,
                       lbfgsInfo := oi_newLbfgsInfo res,
                       lastGradient := oi_gradient res,
                       lastGradientPreconditioned := oi_gradientPreconditioned res,
                       lastConstrEnergies := Some (oi_constrEngs res),
                       lastObjEnergies := Some (oi_objEngs res)\<rparr>;
                    optParams2 =
                      (if unconstrainedConverged2 (oi_normGrad res)
                       then optParams1\<lparr>optStatus := UnconstrainedConverged,
                                        lbfgsInfo := defaultLbfgsParams\<rparr>
                       else optParams1\<lparr>optStatus := UnconstrainedRunning\<rparr>)
                in
                if oi_failed res
                then Inr (state\<lparr>params := optParams2\<lparr>optStatus := Error\<rparr>\<rparr>)
                else Inr (state\<lparr>varyingValues := xs1, params := optParams2\<rparr>)))
      | UnconstrainedConverged \<Rightarrow>
          (case (if 1 < EPround optParams
                 then epConverged2 (lastEPstate optParams) (lastUOstate optParams)
                        (lastEPenergy optParams) (lastUOenergy optParams)
                 else Inr False) of
             Inl e \<Rightarrow> Inl e
           | Inr conv \<Rightarrow>
               (let optParams1 =
                      (if conv then optParams\<lparr>optStatus := EPConverged\<rparr>
                       else
                         (let w = weightGrowthFactor * weight optParams in
                          optParams
                            \<lparr>optStatus := UnconstrainedRunning,
                             weight := w,
                             EPround := EPround optParams + 1,
                             UOround := 0,
                             currObjectiveAndGradient :=
                               objectiveAndGradient optParams w
                                 (Some (frozenValues state))\<rparr>));
                    optParams2 = optParams1
                      \<lparr>lastEPstate := lastUOstate optParams1,
                       lastEPenergy := lastUOenergy optParams1\<rparr>
                in Inr (state\<lparr>varyingValues := xs, params := optParams2\<rparr>)))
      | EPConverged \<Rightarrow> Inr state
      | Error \<Rightarrow> Inr state)"

section \<open>An example problem\<close>

text \<open>
  A two-parameter problem used to run the optimizer on concrete inputs: the single
  objective \<open>(x\<^sub>0\<^sup>2 + x\<^sub>1\<^sup>2) / 2\<close>, no constraint, both inputs optimized. Its compiled
  function evaluates the graph and returns the gradient \<open>(x\<^sub>0, x\<^sub>1)\<close>.
\<close>

definition quad_objEngs :: "Num list" where
  "quad_objEngs =
     [Binary Times (Const (Fin (1 / 2)))
        (Binary Plus (Unary squared (Input 0 (Fin 10))) (Unary squared (Input 1 (Fin 7))))]"

definition quad_inputs :: "InputMeta list" where
  "quad_inputs = [\<lparr>tag = Optimized\<rparr>, \<lparr>tag = Optimized\<rparr>]"

definition quad_compile :: "Num \<Rightarrow> Num list \<Rightarrow> Compiled" where
  "quad_compile prim sec inp =
     \<lparr>gradient = (\<lambda>i. if i < 2 then Some (num_at inp i) else None),
      primary = evalNum inp prim,
      secondary = map (evalNum inp) sec\<rparr>"

definition quad_params :: Params where
  "quad_params = genOptProblem (Fin 1) quad_compile quad_inputs quad_objEngs []"

definition quad_state :: State where
  "quad_state = \<lparr>varyingValues = [Fin 10, Fin 7], frozenValues = {1}, params = quad_params\<rparr>"

definition quad_state_with :: "OptStatus \<Rightarrow> State" where
  "quad_state_with status = quad_state\<lparr>params := quad_params\<lparr>optStatus := status\<rparr>\<rparr>"

text \<open>The example after one earlier step from \<open>(20, 14)\<close>: the L-BFGS memory holds that point.\<close>

definition quad_state_hist :: State where
  "quad_state_hist =
     quad_state\<lparr>params := quad_params\<lparr>lbfgsInfo :=
       \<lparr>lastState = Some [Fin 20, Fin 14], lastGrad = Some [Fin 20, Fin 14],
        s_list = [], y_list = [], numUnconstrSteps = 1, memSize = 17\<rparr>\<rparr>\<rparr>"

text \<open>
  The compiled function of the example, and the example after a \<open>NewIter\<close> step, which
  binds the oracle to the frozen set \<open>{1}\<close>.
\<close>

definition quad_f :: Compiled where
  "quad_f = quad_compile (energyGraph quad_params) (quad_objEngs @ [])"

definition quad_state_frozen :: State where
  "quad_state_frozen =
     quad_state\<lparr>params := quad_params
       \<lparr>currObjectiveAndGradient := objectiveAndGradient quad_params (Fin 1) (Some {1}),
        weight := Fin 1, UOround := 0, EPround := 0,
        optStatus := UnconstrainedRunning, lbfgsInfo := defaultLbfgsParams\<rparr>\<rparr>"

text \<open>
  A second example, with a constraint: objective \<open>x\<^sub>0\<close>, constraint \<open>x\<^sub>1 - 5 \<le> 0\<close>. Its
  compiled function evaluates the graph and returns the gradient of the penalized energy.
\<close>

definition pen_objEngs :: "Num list" where
  "pen_objEngs = [Input 0 (Fin 10)]"

definition pen_constrEngs :: "Num list" where
  "pen_constrEngs = [Binary Minus (Input 1 (Fin 7)) (Const (Fin 5))]"

definition pen_compile :: "Num \<Rightarrow> Num list \<Rightarrow> Compiled" where
  "pen_compile prim sec inp =
     \<lparr>gradient = (\<lambda>i. if i = 0 then Some (Fin 1)
                     else if i = 1 then
                       Some (Fin 2 * (constraintWeight * num_at inp 2) *
                             Math_max (num_at inp 1 - Fin 5) (Fin 0))
                     else None),
      primary = evalNum inp prim,
      secondary = map (evalNum inp) sec\<rparr>"

text \<open>
  A one-parameter oracle whose energy jumps: \<open>x + 1\<close> below zero and \<open>x\<close> from zero on,
  with gradient 1. From \<open>x\<^sub>0 = 0\<close> the direction \<open>-1\<close> is a descent direction for the
  gradient, but no step of length at most 1 decreases the energy.
\<close>

definition jump_oracle :: FnCached where
  "jump_oracle xs =
     (let x = num_at xs 0 in
      Inr \<lparr>fn_f = x + (if x < Fin 0 then Fin 1 else Fin 0), gradf = [Fin 1],
           fn_objEngs = [x + (if x < Fin 0 then Fin 1 else Fin 0)], fn_constrEngs = []\<rparr>)"

text \<open>
  The frozen example with an L-BFGS memory for which \<open>y \<cdot> s = -EPSD\<close>: then
  \<open>rho = 1 / (y \<cdot> s + EPSD)\<close> is infinite, and the correction \<open>y \<cdot> alpha\<close> is \<open>0 \<cdot> \<infinity>\<close> at the
  frozen index.
\<close>

definition quad_state_breakdown :: State where
  "quad_state_breakdown =
     quad_state_frozen
       \<lparr>varyingValues := [Fin (1 / 10 ^ 11), Fin 7],
        params := (params quad_state_frozen)\<lparr>lbfgsInfo :=
          \<lparr>lastState = Some [Fin 0, Fin 7], lastGrad = Some [Fin (1 + 1 / 10 ^ 11), Fin 0],
           s_list = [], y_list = [], numUnconstrSteps = 1, memSize = 17\<rparr>\<rparr>\<rparr>"

section \<open>Loop bodies and invariants\<close>

text \<open>
  Definitions used to state and prove the claims: one iteration of each loop as a
  function of the loop variables (the loops are these bodies, repeated), and the
  invariants of the L-BFGS memory, of the line-search bracket and of frozen parameters.
\<close>

datatype 'a loop_step = Break 'a | Continue 'a

definition minimize_body :: "FnCached \<Rightarrow> min_state \<Rightarrow> min_state loop_step result" where
  "minimize_body f st =
     (if containsNaN (m_xs st) then Inl (JSError ''NaN in xs'')
      else
     (case f (m_xs st) of Inl e \<Rightarrow> Inl e
      | Inr r \<Rightarrow>
     (if containsNaN (gradf r) then Inl (JSError ''NaN in gradfxs'')
      else
     (case lbfgs (m_xs st) (gradf r) (m_newLbfgsInfo st) of Inl e \<Rightarrow> Inl e
      | Inr lr \<Rightarrow>
     (case dot (gradf r) (gradfxsPreconditioned lr) of Inl e \<Rightarrow> Inl e
      | Inr ng \<Rightarrow>
     (let st3 = st\<lparr>m_fxs := fn_f r, m_gradfxs := gradf r,
                    m_objEngs := fn_objEngs r, m_constrEngs := fn_constrEngs r,
                    m_newLbfgsInfo := updatedLbfgsInfo lr,
                    m_gradientPreconditioned := gradfxsPreconditioned lr,
                    m_normGradfxs := ng\<rparr>
      in
      if ng < uoStop then Inr (Break st3)
      else
     (case awLineSearch2 (m_xs st) f (gradfxsPreconditioned lr) (fn_f r) 10 of
        Inl e \<Rightarrow> Inl e
      | Inr t \<Rightarrow>
          if isNaN (fn_f r) \<or> isNaN (normList (gradf r))
          then Inr (Break (st3\<lparr>m_t := t, m_failed := True\<rparr>))
          else Inr (Continue (st3
                 \<lparr>m_t := t,
                  m_xs := map (\<lambda>j. m_xs st ! j - t * num_at (gradfxsPreconditioned lr) j)
                            [0..<length (m_xs st)],
                  m_i := m_i st + 1\<rparr>)))))))))"

definition aw_next :: "ls_state \<Rightarrow> ls_state" where
  "aw_next st1 =
     (if ls_b st1 < PInf
      then st1\<lparr>ls_t := (ls_a st1 + ls_b st1) / Fin 2, ls_i := ls_i st1 + 1\<rparr>
      else st1\<lparr>ls_t := Fin 2 * ls_a st1, ls_i := ls_i st1 + 1\<rparr>)"

definition aw_body ::
  "number list \<Rightarrow> FnCached \<Rightarrow> number list \<Rightarrow> number \<Rightarrow> number \<Rightarrow> ls_state
     \<Rightarrow> ls_state loop_step result" where
  "aw_body xs0 f descentDir fxs0 dufAtx0 st =
     (case addv xs0 (scalev (ls_t st) descentDir) of Inl e \<Rightarrow> Inl e
      | Inr p \<Rightarrow>
     (case f p of Inl e \<Rightarrow> Inl e
      | Inr r \<Rightarrow>
     (case weakWolfe descentDir dufAtx0 (ls_t st) (gradf r) of Inl e \<Rightarrow> Inl e
      | Inr isWolfe \<Rightarrow>
          if \<not> armijo fxs0 dufAtx0 (ls_t st) (fn_f r) then
            Inr (Continue (aw_next (st\<lparr>ls_b := ls_t st\<rparr>)))
          else if \<not> isWolfe then
            Inr (Continue (aw_next (st\<lparr>ls_a := ls_t st\<rparr>)))
          else Inr (Break st))))"

text \<open>
  The L-BFGS memory as the data model describes it: as many \<open>s\<close> as \<open>y\<close> vectors, at most
  \<open>memSize\<close> of them, and none before the first step.
\<close>

definition history_ok :: "LbfgsParams \<Rightarrow> bool" where
  "history_ok info =
     (length (s_list info) = length (y_list info) \<and>
      length (s_list info) \<le> memSize info \<and>
      (numUnconstrSteps info = 0 \<longrightarrow> s_list info = [] \<and> y_list info = []))"

text \<open>The bracket: its ends are finite (or the upper end still infinite), and once the
  upper end is finite the width is at least \<open>2 / 2 ^ i\<close>.\<close>

definition bracket_inv :: "ls_state \<Rightarrow> bool" where
  "bracket_inv st =
     (\<exists>ra rt. ls_a st = Fin ra \<and> ls_t st = Fin rt \<and> 0 \<le> ra \<and> 0 < rt \<and>
        ((ls_b st = PInf \<and> ((ls_i st = 0 \<and> ra = 0 \<and> rt = 1) \<or> (1 \<le> ra \<and> rt = 2 * ra))) \<or>
         (\<exists>rb. ls_b st = Fin rb \<and> 2 \<le> (rb - ra) * 2 ^ ls_i st \<and> rt = (ra + rb) / 2)))"

text \<open>
  A frozen parameter keeps its value because the oracle's gradient is zero at its index
  and every vector L-BFGS builds from such gradients is zero there too. With \<open>NaN\<close> and
  the infinities in play the entry can also be \<open>NaN\<close> (\<open>0 \<cdot> \<infinity>\<close>, \<open>\<infinity> - \<infinity>\<close>): \<open>zn\<close> is
  "zero or \<open>NaN\<close>".
\<close>

definition zn :: "number \<Rightarrow> bool" where
  "zn x = (x = Fin 0 \<or> x = NaN)"

definition zat :: "nat \<Rightarrow> number list \<Rightarrow> bool" where
  "zat i v = zn (num_at v i)"

definition same_or_nan :: "number \<Rightarrow> number \<Rightarrow> bool" where
  "same_or_nan a b = (a = b \<or> a = NaN \<or> b = NaN)"

text \<open>
  The L-BFGS memory at a frozen index \<open>i\<close>, relative to a value \<open>v\<close> of the \<open>i\<close>-th
  parameter: the stored point agrees with \<open>v\<close> there (or one of them is \<open>NaN\<close>), and the
  stored gradient and all correction vectors are zero or \<open>NaN\<close> there.
\<close>

definition hist_inv :: "nat \<Rightarrow> number \<Rightarrow> LbfgsParams \<Rightarrow> bool" where
  "hist_inv i v info =
     ((\<forall>ls. lastState info = Some ls \<longrightarrow> same_or_nan v (num_at ls i)) \<and>
      (\<forall>lg. lastGrad info = Some lg \<longrightarrow> zat i lg) \<and>
      (\<forall>s \<in> set (s_list info). zat i s) \<and>
      (\<forall>y \<in> set (y_list info). zat i y))"

text \<open>An oracle masks the indices in \<open>F\<close> when its gradient is zero there.\<close>

definition masks :: "nat set \<Rightarrow> FnCached \<Rightarrow> bool" where
  "masks F f = (\<forall>xs r. f xs = Inr r \<longrightarrow> (\<forall>i \<in> F. zat i (gradf r)))"

text \<open>The minimizer's loop at a frozen index \<open>i\<close>, relative to the value \<open>c\<close> the
  parameter had on entry.\<close>

definition frozen_loop_inv :: "nat \<Rightarrow> number \<Rightarrow> nat \<Rightarrow> min_state \<Rightarrow> bool" where
  "frozen_loop_inv i c n s =
     (length (m_xs s) = n \<and>
      (num_at (m_xs s) i = c \<or> num_at (m_xs s) i = NaN) \<and>
      hist_inv i (num_at (m_xs s) i) (m_newLbfgsInfo s) \<and>
      hist_inv i c (m_newLbfgsInfo s))"

text \<open>
  The states on which frozen indices are respected: the oracle factory is the builder's,
  and either the status is \<open>NewIter\<close> (the next step binds the oracle and clears the
  L-BFGS memory), or the current oracle is the factory's oracle for the state's weight and
  frozen set and the L-BFGS memory is zero or \<open>NaN\<close> at every frozen index.
\<close>

definition frozen_inv :: "InputMeta list \<Rightarrow> Compiled \<Rightarrow> nat \<Rightarrow> State \<Rightarrow> bool" where
  "frozen_inv inputs f nObj s =
     (objectiveAndGradient (params s) = genOptProblem_objectiveAndGradient inputs f nObj \<and>
      (optStatus (params s) = NewIter \<or>
       (currObjectiveAndGradient (params s) =
          objectiveAndGradient (params s) (weight (params s)) (Some (frozenValues s)) \<and>
        (\<forall>i \<in> frozenValues s.
           hist_inv i (num_at (varyingValues s) i) (lbfgsInfo (params s))))))"

section \<open>Facts about numbers and vectors\<close>

lemma times_number_commute: "(a::number) * b = b * a"
  by (cases a; cases b) (simp_all add: mult.commute)

lemma square_not_negative: "\<not> (a::number) * a < Fin 0"
  by (cases a) simp_all

lemma plus_not_negative:
  "\<not> (a::number) < Fin 0 \<Longrightarrow> \<not> b < Fin 0 \<Longrightarrow> \<not> a + b < Fin 0"
  by (cases a; cases b) simp_all

lemma foldl_plus_not_negative:
  "\<not> acc < Fin 0 \<Longrightarrow> \<forall>x \<in> set xs. \<not> x < Fin 0 \<Longrightarrow> \<not> foldl (+) acc xs < Fin 0"
  by (induction xs arbitrary: acc) (simp_all add: plus_not_negative)

lemma map2_times_commute: "map2 (*) xs ys = map2 (*) ys (xs :: number list)"
proof (induction xs arbitrary: ys)
  case Nil
  show ?case by simp
next
  case (Cons x xs)
  show ?case by (cases ys) (simp_all add: Cons times_number_commute)
qed

lemma map2_times_self: "map2 (*) g g = map (\<lambda>x. x * x) (g :: number list)"
  by (induction g) simp_all

lemma dot_self_not_negative: "dot g g = Inr d \<Longrightarrow> \<not> d < Fin 0"
proof -
  assume "dot g g = Inr d"
  then have d: "d = foldl (+) (Fin 0) (map (\<lambda>x. x * x) g)"
    by (simp add: dot_def sumN_def map2_times_self)
  have "\<not> foldl (+) (Fin 0) (map (\<lambda>x. x * x) g) < Fin 0"
    by (rule foldl_plus_not_negative) (auto simp: square_not_negative)
  with d show ?thesis by simp
qed

lemma dot_Matrix_dot: "Matrix_dot a b = Inr d \<Longrightarrow> dot b a = Inr d"
  by (auto simp: Matrix_dot_def dot_def map2_times_commute split: if_splits)

lemma descent_check: "\<not> Fin 0 < Fin (- 1) * d \<Longrightarrow> \<not> d < Fin 0"
  by (cases d) simp_all

section \<open>Running the example\<close>

lemma containsNaN_False: "containsNaN xs = False"
  by (simp add: containsNaN_def array_keys_def list_ex_iff)

lemma quad_oracle_eval:
  "genOptProblem_objectiveAndGradient quad_inputs (quad_compile G S) n w (Some F) [a, b] =
     Inr \<lparr>fn_f = evalNum [a, b, w] G,
          gradf = [if 0 \<notin> F then a else Fin 0, if 1 \<notin> F then b else Fin 0],
          fn_objEngs = take n (map (evalNum [a, b, w]) S),
          fn_constrEngs = drop n (map (evalNum [a, b, w]) S)\<rparr>"
  by (simp add: genOptProblem_objectiveAndGradient_def quad_compile_def quad_inputs_def
      maskedGradient_def nth_opt_def num_at_def Let_def)

lemma quad_curr:
  "currObjectiveAndGradient quad_params [a, b] =
     Inr \<lparr>fn_f = Fin 0 + Fin (1 / 2) * (a * a + b * b) + Fin 0 * (Fin 100000 * Fin 1),
          gradf = [a, b],
          fn_objEngs = [Fin (1 / 2) * (a * a + b * b)], fn_constrEngs = []\<rparr>"
  apply (simp add: quad_params_def genOptProblem_def Let_def quad_oracle_eval)
  apply (simp add: evalEnergyOnCustom_def vsum_def add_def mul_def quad_objEngs_def num_at_def
      nth_opt_def constraintWeight_def quad_inputs_def)
  done

lemma quad_params_fields [simp]:
  "lbfgsInfo quad_params = defaultLbfgsParams"
  "optStatus quad_params = UnconstrainedRunning"
  by (simp_all add: quad_params_def genOptProblem_def Let_def)

lemma quad_state_fields [simp]:
  "varyingValues quad_state = [Fin 10, Fin 7]"
  "frozenValues quad_state = {1}"
  "params quad_state = quad_params"
  by (simp_all add: quad_state_def)

lemmas ls_eval = shouldStop_def minus_number_def minInterval_def addv_def scalev_def
  weakWolfe_def armijo_def dot_def sumN_def c1_def c2_def less_eq_number_def Let_def

lemmas min_eval = containsNaN_False lbfgs_def defaultLbfgsParams_def Let_def dot_def sumN_def
  BREAK_EARLY_def USE_LINE_SEARCH_def unconstrainedConverged2_def uoStop_def normList_def
  num_at_def nth_opt_def minus_number_def

lemmas lbfgs_eval = lbfgs_def Let_def Matrix_sub_def minus_number_def lbfgsInner_def zip2_def
  zip3_def calculate_rho_def Matrix_dot_def sumN_def EPSD_def nth_opt_def Matrix_mul_def
  Matrix_mmul_def Matrix_identity_def Matrix_scale_def Matrix_add_def

section \<open>The claims\<close>

subsection \<open>C7: terminal states are sticky\<close>

text \<open>
  Claim C7. For every state whose status is \<open>EPConverged\<close> or \<open>Error\<close>, \<open>step\<close> returns
  the state unchanged, for every step budget; hence stepping the result again, with any
  budget, gives the same result: \<open>step (step s k) k' = step s k\<close>.
\<close>

theorem step_terminal_sticky:
  assumes "optStatus (params s) = EPConverged \<or> optStatus (params s) = Error"
  shows "step w s k = Inr s \<and>
         (case step w s k of Inl e \<Rightarrow> Inl e | Inr s' \<Rightarrow> step w s' k') = step w s k"
proof -
  have "step w s j = Inr s" for j
    using assms by (auto simp: step_def Let_def)
  then show ?thesis by simp
qed

theorem step_terminal_sticky_witness:
  "(optStatus (params (quad_state_with Error)) = EPConverged \<or>
    optStatus (params (quad_state_with Error)) = Error) \<and>
   step (Fin 1) (quad_state_with Error) 5 = Inr (quad_state_with Error) \<and>
   (case step (Fin 1) (quad_state_with Error) 5 of Inl e \<Rightarrow> Inl e
    | Inr s' \<Rightarrow> step (Fin 1) s' 2) = step (Fin 1) (quad_state_with Error) 5"
proof -
  have h: "optStatus (params (quad_state_with Error)) = EPConverged \<or>
           optStatus (params (quad_state_with Error)) = Error"
    by (simp add: quad_state_with_def)
  from h step_terminal_sticky [OF h, of "Fin 1" 5 2] show ?thesis by (rule conjI)
qed

subsection \<open>C4: a step budget below one\<close>

text \<open>
  Claim C4 says that \<open>step\<close> raises for every budget below one, whatever the status. The
  check lives in \<open>minimize\<close>, which only the status \<open>UnconstrainedRunning\<close> reaches: a
  converged state stepped with budget zero is returned, not refused.
\<close>

theorem step_zero_budget_counterexample:
  "(0::int) < 1 \<and>
   step (Fin 1) (quad_state_with EPConverged) 0 = Inr (quad_state_with EPConverged)"
  by (simp add: step_def quad_state_with_def Let_def)

text \<open>
  Claim C4, amended. For a budget below one, \<open>step\<close> raises the minimizer's error when
  the status is \<open>UnconstrainedRunning\<close>; in the statuses \<open>NewIter\<close>, \<open>EPConverged\<close>
  and \<open>Error\<close> it returns a state, and in \<open>UnconstrainedConverged\<close> it does what it does
  for any other budget (the budget is not read).
\<close>

theorem step_insufficient_steps:
  assumes "steps < 1"
  shows "(optStatus (params s) = UnconstrainedRunning \<longrightarrow>
            step w s steps = Inl (JSError ''must step at least 1 times in the optimizer'')) \<and>
         (optStatus (params s) \<in> {NewIter, EPConverged, Error} \<longrightarrow>
            (\<exists>s'. step w s steps = Inr s')) \<and>
         (optStatus (params s) = UnconstrainedConverged \<longrightarrow>
            step w s steps = step w s 1)"
  using assms by (auto simp: step_def minimize_def MIN_STEPS_def Let_def)

theorem step_insufficient_steps_witness:
  "(0::int) < 1 \<and>
   step (Fin 1) quad_state 0 = Inl (JSError ''must step at least 1 times in the optimizer'') \<and>
   (\<exists>s'. step (Fin 1) (quad_state_with NewIter) 0 = Inr s') \<and>
   step (Fin 1) (quad_state_with UnconstrainedConverged) 0 =
     step (Fin 1) (quad_state_with UnconstrainedConverged) 1"
proof -
  have h: "(0::int) < 1" by simp
  from step_insufficient_steps [OF h, of quad_state "Fin 1"]
    step_insufficient_steps [OF h, of "quad_state_with NewIter" "Fin 1"]
    step_insufficient_steps [OF h, of "quad_state_with UnconstrainedConverged" "Fin 1"]
  show ?thesis by (simp add: quad_state_with_def)
qed

subsection \<open>C2: a NaN in the parameter vector\<close>

text \<open>
  Claim C2: when the vector handed to an iteration of \<open>minimize\<close> contains \<open>NaN\<close>,
  \<open>minimize\<close> raises before it evaluates the oracle. The code calls \<open>containsNaN\<close> for
  that, but \<open>containsNaN\<close> tests the keys of the array and is false of every array. At
  \<open>x = (NaN, 7)\<close> the example's oracle is evaluated, the line search runs, and \<open>minimize\<close>
  returns with \<open>failed\<close> set and \<open>x\<close> unchanged; nothing is raised.
\<close>

theorem minimize_NaN_in_xs_not_raised:
  "(\<forall>xs. \<not> containsNaN xs) \<and>
   (case minimize [NaN, Fin 7] (currObjectiveAndGradient quad_params) defaultLbfgsParams 1 of
      Inl e \<Rightarrow> False
    | Inr res \<Rightarrow> oi_failed res \<and> oi_xs res = [NaN, Fin 7] \<and> isNaN (oi_energyVal res))"
proof -
  have "minimize [NaN, Fin 7] (currObjectiveAndGradient quad_params) defaultLbfgsParams 1 =
     Inr \<lparr>oi_xs = [NaN, Fin 7], oi_energyVal = NaN, oi_normGrad = NaN,
          oi_newLbfgsInfo =
            \<lparr>lastState = Some [NaN, Fin 7], lastGrad = Some [NaN, Fin 7],
             s_list = [], y_list = [], numUnconstrSteps = 1, memSize = 17\<rparr>,
          oi_gradient = [NaN, Fin 7],
          oi_gradientPreconditioned = [NaN, Fin 7], oi_failed = True,
          oi_objEngs = [NaN], oi_constrEngs = []\<rparr>"
    apply (simp add: minimize_def MIN_STEPS_def repeat_def)
    apply (subst minimize_loop.simps)
    apply (simp add: min_eval quad_curr)
    apply (simp add: awLineSearch2_def quad_curr negv_def dot_def sumN_def Let_def)
    apply (subst awLoop.simps, simp add: ls_eval quad_curr)+
    done
  then show ?thesis by (simp add: containsNaN_False)
qed

subsection \<open>C5: the direction L-BFGS returns\<close>

text \<open>
  Claim C5 says that \<open>\<langle>gPre, g\<rangle> > 0\<close> whenever L-BFGS returns without a reset, the first
  call included. At a stationary point the first call returns \<open>gPre = g = 0\<close>, and the
  product is zero.
\<close>

theorem lbfgs_zero_gradient_counterexample:
  "lbfgs [Fin 3] [Fin 0] defaultLbfgsParams =
     Inr \<lparr>gradfxsPreconditioned = [Fin 0],
          updatedLbfgsInfo =
            \<lparr>lastState = Some [Fin 3], lastGrad = Some [Fin 0], s_list = [], y_list = [],
             numUnconstrSteps = 1, memSize = 17\<rparr>\<rparr> \<and>
   dot [Fin 0] [Fin 0] = Inr (Fin 0) \<and> \<not> Fin 0 < Fin 0"
  by (simp add: lbfgs_def defaultLbfgsParams_def dot_def sumN_def)

text \<open>
  Claim C5, amended. Whenever L-BFGS returns a direction \<open>gPre\<close> (first call, reset or
  update), the product \<open>\<langle>g, gPre\<rangle>\<close> that \<open>minimize\<close> computes from it is not negative: it
  is zero, positive or \<open>NaN\<close>. The reset test is \<open>-\<langle>gPre, g\<rangle> > 0\<close>, which lets zero pass.
\<close>

theorem lbfgs_direction_not_negative:
  assumes "lbfgs xs g info = Inr r" and "dot g (gradfxsPreconditioned r) = Inr d"
  shows "\<not> d < Fin 0"
proof -
  from assms(1) have "gradfxsPreconditioned r = g \<or>
      (\<exists>d. Matrix_dot (gradfxsPreconditioned r) g = Inr d \<and> \<not> Fin 0 < Fin (- 1) * d)"
    by (auto simp: lbfgs_def Let_def split: option.splits sum.splits if_splits)
  then show ?thesis
  proof
    assume "gradfxsPreconditioned r = g"
    with assms(2) show ?thesis by (simp add: dot_self_not_negative)
  next
    assume "\<exists>d. Matrix_dot (gradfxsPreconditioned r) g = Inr d \<and> \<not> Fin 0 < Fin (- 1) * d"
    then obtain d' where d': "Matrix_dot (gradfxsPreconditioned r) g = Inr d'"
      and chk: "\<not> Fin 0 < Fin (- 1) * d'" by blast
    from dot_Matrix_dot [OF d'] assms(2) have "d' = d" by simp
    with chk show ?thesis by (simp add: descent_check)
  qed
qed

text \<open>The witness is a second call, which goes through the two-loop recursion.\<close>

theorem lbfgs_direction_not_negative_witness:
  "lbfgs [Fin 1] [Fin 1]
     \<lparr>lastState = Some [Fin 2], lastGrad = Some [Fin 2], s_list = [], y_list = [],
      numUnconstrSteps = 1, memSize = 17\<rparr> =
     Inr \<lparr>gradfxsPreconditioned =
            [Fin (1000000000020000000000200000000000 / 1000000000030000000000300000000001)],
          updatedLbfgsInfo =
            \<lparr>lastState = Some [Fin 1], lastGrad = Some [Fin 1],
             s_list = [[Fin (- 1)]], y_list = [[Fin (- 1)]],
             numUnconstrSteps = 2, memSize = 17\<rparr>\<rparr> \<and>
   dot [Fin 1]
     [Fin (1000000000020000000000200000000000 / 1000000000030000000000300000000001)] =
     Inr (Fin (1000000000020000000000200000000000 / 1000000000030000000000300000000001)) \<and>
   \<not> Fin (1000000000020000000000200000000000 / 1000000000030000000000300000000001) < Fin 0"
proof -
  have a: "lbfgs [Fin 1] [Fin 1]
     \<lparr>lastState = Some [Fin 2], lastGrad = Some [Fin 2], s_list = [], y_list = [],
      numUnconstrSteps = 1, memSize = 17\<rparr> =
     Inr \<lparr>gradfxsPreconditioned =
            [Fin (1000000000020000000000200000000000 / 1000000000030000000000300000000001)],
          updatedLbfgsInfo =
            \<lparr>lastState = Some [Fin 1], lastGrad = Some [Fin 1],
             s_list = [[Fin (- 1)]], y_list = [[Fin (- 1)]],
             numUnconstrSteps = 2, memSize = 17\<rparr>\<rparr>"
    by (simp add: lbfgs_eval)
  have b: "dot [Fin 1] (gradfxsPreconditioned
       \<lparr>gradfxsPreconditioned =
            [Fin (1000000000020000000000200000000000 / 1000000000030000000000300000000001)],
          updatedLbfgsInfo =
            \<lparr>lastState = Some [Fin 1], lastGrad = Some [Fin 1],
             s_list = [[Fin (- 1)]], y_list = [[Fin (- 1)]],
             numUnconstrSteps = 2, memSize = 17\<rparr>\<rparr>) =
     Inr (Fin (1000000000020000000000200000000000 / 1000000000030000000000300000000001))"
    by (simp add: dot_def sumN_def)
  from a b lbfgs_direction_not_negative [OF a b] show ?thesis by simp
qed

section \<open>One iteration of the minimizer\<close>

lemma minimize_loop_unfold:
  "minimize_loop f n st =
     (if m_i st < n then
        (case minimize_body f st of Inl e \<Rightarrow> Inl e
         | Inr (Break st') \<Rightarrow> Inr st'
         | Inr (Continue st') \<Rightarrow> minimize_loop f n st')
      else Inr st)"
  apply (subst minimize_loop.simps)
  apply (simp add: minimize_body_def Let_def BREAK_EARLY_def USE_LINE_SEARCH_def
      unconstrainedConverged2_def split: sum.splits)
  done

lemma minimize_body_Continue_i:
  "minimize_body f st = Inr (Continue st') \<Longrightarrow> m_i st' = m_i st + 1"
  by (auto simp: minimize_body_def Let_def split: sum.splits if_splits)

lemma minimize_loop_invariant:
  assumes "minimize_loop f n st = Inr st'" and "P st"
    and step: "\<And>s s'. P s \<Longrightarrow> m_i s < n \<Longrightarrow>
        minimize_body f s = Inr (Break s') \<or> minimize_body f s = Inr (Continue s') \<Longrightarrow> P s'"
  shows "P st'"
  using assms(1,2)
proof (induction "nat (n - m_i st)" arbitrary: st rule: less_induct)
  case less
  show ?case
  proof (cases "m_i st < n")
    case False
    with less.prems show ?thesis by (simp add: minimize_loop_unfold)
  next
    case True
    from less.prems(1) True obtain ls where body: "minimize_body f st = Inr ls"
      by (subst (asm) minimize_loop_unfold) (auto split: sum.splits)
    show ?thesis
    proof (cases ls)
      case (Break s')
      with less.prems(1) True body have "st' = s'"
        by (subst (asm) minimize_loop_unfold) simp
      with step [OF less.prems(2) True] body Break show ?thesis by simp
    next
      case (Continue s')
      with less.prems(1) True body have loop: "minimize_loop f n s' = Inr st'"
        by (subst (asm) minimize_loop_unfold) simp
      from body Continue have i: "m_i s' = m_i st + 1"
        by (simp add: minimize_body_Continue_i)
      from step [OF less.prems(2) True] body Continue have "P s'" by simp
      with less.hyps [of s'] loop i True show ?thesis by simp
    qed
  qed
qed

lemma lbfgs_history_ok:
  "history_ok info \<Longrightarrow> lbfgs xs g info = Inr r \<Longrightarrow> history_ok (updatedLbfgsInfo r)"
  by (auto simp: lbfgs_def history_ok_def Let_def split: option.splits sum.splits if_splits)

lemma minimize_body_history_ok:
  assumes "history_ok (m_newLbfgsInfo s)"
    and "minimize_body f s = Inr (Break s') \<or> minimize_body f s = Inr (Continue s')"
  shows "history_ok (m_newLbfgsInfo s')"
  using assms
  by (auto simp: minimize_body_def Let_def split: sum.splits if_splits dest: lbfgs_history_ok)

lemma minimize_history_ok:
  assumes "history_ok info" and "minimize xs0 f info n = Inr res"
  shows "history_ok (oi_newLbfgsInfo res)"
proof -
  from assms(2) obtain st where
    loop: "minimize_loop f n
                \<lparr>m_xs = xs0, m_fxs = Fin 0,
                 m_gradfxs = repeat (length xs0) (Fin 0),
                 m_gradientPreconditioned = repeat (length xs0) (Fin 0),
                 m_normGradfxs = Fin 0, m_i = 0, m_t = Fin (1 / 10000),
                 m_failed = False, m_objEngs = [], m_constrEngs = [],
                 m_newLbfgsInfo = info\<rparr> = Inr st"
    and res: "oi_newLbfgsInfo res = m_newLbfgsInfo st"
    by (auto simp: minimize_def split: if_splits sum.splits)
  have "history_ok (m_newLbfgsInfo st)"
    by (rule minimize_loop_invariant [OF loop, where P = "\<lambda>s. history_ok (m_newLbfgsInfo s)"])
       (simp_all add: assms(1) minimize_body_history_ok)
  with res show ?thesis by simp
qed

lemma history_ok_default: "history_ok defaultLbfgsParams"
  by (simp add: history_ok_def defaultLbfgsParams_def)

subsection \<open>C8: the history bound\<close>

text \<open>
  Claim C8. The data model's invariant of the L-BFGS state, \<open>|sList| = |yList| \<le> memSize\<close>
  and both lists empty when \<open>numUnconstrSteps = 0\<close>, holds of the state the builder
  returns, and every \<open>step\<close> call on a state that satisfies it returns a state that
  satisfies it.
\<close>

theorem step_history_bound:
  "history_ok (lbfgsInfo (genOptProblem w0 compile inputs objs cs)) \<and>
   (history_ok (lbfgsInfo (params s)) \<and> step w s k = Inr s' \<longrightarrow>
      length (s_list (lbfgsInfo (params s'))) = length (y_list (lbfgsInfo (params s'))) \<and>
      length (s_list (lbfgsInfo (params s'))) \<le> memSize (lbfgsInfo (params s')) \<and>
      (numUnconstrSteps (lbfgsInfo (params s')) = 0 \<longrightarrow>
         s_list (lbfgsInfo (params s')) = [] \<and> y_list (lbfgsInfo (params s')) = []))"
proof -
  have "history_ok (lbfgsInfo (params s'))"
    if ok: "history_ok (lbfgsInfo (params s))" and st: "step w s k = Inr s'"
  proof (cases "optStatus (params s)")
    case NewIter
    with ok st show ?thesis by (auto simp: step_def Let_def history_ok_default)
  next
    case UnconstrainedRunning
    with st obtain res where
      m: "minimize (varyingValues s) (currObjectiveAndGradient (params s))
            (lbfgsInfo (params s)) k = Inr res"
      by (auto simp: step_def Let_def split: sum.splits)
    from minimize_history_ok [OF ok m] have "history_ok (oi_newLbfgsInfo res)" .
    with st UnconstrainedRunning m show ?thesis
      by (auto simp: step_def Let_def history_ok_default split: if_splits)
  next
    case UnconstrainedConverged
    with ok st show ?thesis
      by (auto simp: step_def Let_def split: sum.splits if_splits)
  next
    case EPConverged
    with ok st show ?thesis by (auto simp: step_def Let_def)
  next
    case Error
    with ok st show ?thesis by (auto simp: step_def Let_def)
  qed
  moreover have "history_ok (lbfgsInfo (genOptProblem w0 compile inputs objs cs))"
    by (simp add: genOptProblem_def Let_def history_ok_default)
  ultimately show ?thesis by (auto simp: history_ok_def)
qed

section \<open>One iteration of the line search\<close>

lemma awLoop_unfold:
  "awLoop xs0 f d fxs0 duf maxSteps st =
     (if shouldStop maxSteps (ls_i st) (ls_a st) (ls_b st) (ls_t st) then Inr st
      else
        (case aw_body xs0 f d fxs0 duf st of Inl e \<Rightarrow> Inl e
         | Inr (Break st') \<Rightarrow> Inr st'
         | Inr (Continue st') \<Rightarrow> awLoop xs0 f d fxs0 duf maxSteps st'))"
  apply (subst awLoop.simps)
  apply (simp add: aw_body_def aw_next_def Let_def split: sum.splits)
  done

lemma aw_next_i [simp]: "ls_i (aw_next st) = ls_i st + 1"
  by (simp add: aw_next_def)

lemma aw_body_Continue_i:
  "aw_body xs0 f d fxs0 duf st = Inr (Continue st') \<Longrightarrow> ls_i st' = ls_i st + 1"
  by (auto simp: aw_body_def split: sum.splits if_splits)

lemma aw_body_Break:
  "aw_body xs0 f d fxs0 duf st = Inr (Break st') \<Longrightarrow>
     st' = st \<and> (\<exists>p r. addv xs0 (scalev (ls_t st) d) = Inr p \<and> f p = Inr r \<and>
        armijo fxs0 duf (ls_t st) (fn_f r) \<and> weakWolfe d duf (ls_t st) (gradf r) = Inr True)"
  by (auto simp: aw_body_def split: sum.splits if_splits)

text \<open>How the loop can be left, and an invariant rule for it.\<close>

lemma awLoop_result:
  assumes "awLoop xs0 f d fxs0 duf maxSteps st = Inr st'" and "P st"
    and step: "\<And>s s'. P s \<Longrightarrow> aw_body xs0 f d fxs0 duf s = Inr (Continue s') \<Longrightarrow> P s'"
  shows "P st' \<and>
     (shouldStop maxSteps (ls_i st') (ls_a st') (ls_b st') (ls_t st') \<or>
      (\<exists>p r. addv xs0 (scalev (ls_t st') d) = Inr p \<and> f p = Inr r \<and>
         armijo fxs0 duf (ls_t st') (fn_f r) \<and>
         weakWolfe d duf (ls_t st') (gradf r) = Inr True))"
  using assms(1,2)
proof (induction "maxSteps + 1 - ls_i st" arbitrary: st rule: less_induct)
  case less
  show ?case
  proof (cases "shouldStop maxSteps (ls_i st) (ls_a st) (ls_b st) (ls_t st)")
    case True
    with less.prems show ?thesis by (simp add: awLoop_unfold)
  next
    case False
    then have i: "ls_i st \<le> maxSteps" by (simp add: shouldStop_def Let_def)
    from less.prems(1) False obtain ls where body: "aw_body xs0 f d fxs0 duf st = Inr ls"
      by (subst (asm) awLoop_unfold) (auto split: sum.splits)
    show ?thesis
    proof (cases ls)
      case (Break s')
      with less.prems(1) False body have "st' = s'"
        by (subst (asm) awLoop_unfold) simp
      with aw_body_Break [of xs0 f d fxs0 duf st s'] body Break less.prems(2)
      show ?thesis by auto
    next
      case (Continue s')
      with less.prems(1) False body have loop: "awLoop xs0 f d fxs0 duf maxSteps s' = Inr st'"
        by (subst (asm) awLoop_unfold) simp
      from body Continue have "ls_i s' = ls_i st + 1"
        by (simp add: aw_body_Continue_i)
      with i have m: "maxSteps + 1 - ls_i s' < maxSteps + 1 - ls_i st" by simp
      from step [OF less.prems(2)] body Continue have "P s'" by simp
      from less.hyps [OF m loop this] show ?thesis .
    qed
  qed
qed

lemma bracket_inv_init: "bracket_inv \<lparr>ls_a = Fin 0, ls_b = PInf, ls_t = Fin 1, ls_i = 0\<rparr>"
  by (simp add: bracket_inv_def)

lemma bracket_inv_first:
  assumes "ls_a s = Fin ra" "ls_t s = Fin rt" "0 \<le> ra" "0 < rt" "ls_b s = PInf"
    and "(ls_i s = 0 \<and> ra = 0 \<and> rt = 1) \<or> (1 \<le> ra \<and> rt = 2 * ra)"
  shows "bracket_inv (aw_next (s\<lparr>ls_b := ls_t s\<rparr>))"
    and "bracket_inv (aw_next (s\<lparr>ls_a := ls_t s\<rparr>))"
proof -
  have w: "2 \<le> (rt - ra) * 2 ^ Suc (ls_i s)"
    using assms(6)
  proof
    assume "ls_i s = 0 \<and> ra = 0 \<and> rt = 1"
    then show ?thesis by simp
  next
    assume h: "1 \<le> ra \<and> rt = 2 * ra"
    have "(1::real) \<le> 2 ^ ls_i s" by simp
    with h have "1 * 1 \<le> ra * 2 ^ ls_i s" by (intro mult_mono) auto
    with h show ?thesis by simp
  qed
  show "bracket_inv (aw_next (s\<lparr>ls_b := ls_t s\<rparr>))"
    unfolding bracket_inv_def
    apply (rule exI [of _ ra], rule exI [of _ "(ra + rt) / 2"])
    using assms(1-4) w
    apply (simp add: aw_next_def)
    done
  show "bracket_inv (aw_next (s\<lparr>ls_a := ls_t s\<rparr>))"
    unfolding bracket_inv_def
    apply (rule exI [of _ rt], rule exI [of _ "2 * rt"])
    using assms
    apply (auto simp add: aw_next_def)
    done
qed

lemma bracket_inv_halve:
  assumes "ls_a s = Fin ra" "ls_t s = Fin rt" "0 \<le> ra" "0 < rt" "ls_b s = Fin rb"
    and "2 \<le> (rb - ra) * 2 ^ ls_i s" "rt = (ra + rb) / 2"
  shows "bracket_inv (aw_next (s\<lparr>ls_b := ls_t s\<rparr>))"
    and "bracket_inv (aw_next (s\<lparr>ls_a := ls_t s\<rparr>))"
proof -
  have e: "(rt - ra) * 2 ^ Suc (ls_i s) = (rb - ra) * 2 ^ ls_i s"
    "(rb - rt) * 2 ^ Suc (ls_i s) = (rb - ra) * 2 ^ ls_i s"
    unfolding assms(7) by (simp_all add: field_simps)
  have w: "2 \<le> (rt - ra) * 2 ^ Suc (ls_i s)" "2 \<le> (rb - rt) * 2 ^ Suc (ls_i s)"
    unfolding e by (rule assms(6))+
  from assms(6) have "0 < (rb - ra) * 2 ^ ls_i s" by simp
  then have lt: "ra < rb" by (simp add: zero_less_mult_iff)
  show "bracket_inv (aw_next (s\<lparr>ls_b := ls_t s\<rparr>))"
    unfolding bracket_inv_def
    apply (rule exI [of _ ra], rule exI [of _ "(ra + rt) / 2"])
    using assms(1-5) w(1)
    apply (simp add: aw_next_def)
    done
  show "bracket_inv (aw_next (s\<lparr>ls_a := ls_t s\<rparr>))"
    unfolding bracket_inv_def
    apply (rule exI [of _ rt], rule exI [of _ "(rt + rb) / 2"])
    using assms(1-5) w(2) lt
    apply (simp add: aw_next_def)
    done
qed

lemma bracket_inv_step:
  assumes "bracket_inv s" and "aw_body xs0 f d fxs0 duf s = Inr (Continue s')"
  shows "bracket_inv s'"
proof -
  from assms(2) have s': "s' = aw_next (s\<lparr>ls_b := ls_t s\<rparr>) \<or> s' = aw_next (s\<lparr>ls_a := ls_t s\<rparr>)"
    by (auto simp: aw_body_def split: sum.splits if_splits)
  from assms(1) obtain ra rt where a: "ls_a s = Fin ra" and t: "ls_t s = Fin rt"
    and pos: "0 \<le> ra" "0 < rt"
    and b: "(ls_b s = PInf \<and> ((ls_i s = 0 \<and> ra = 0 \<and> rt = 1) \<or> (1 \<le> ra \<and> rt = 2 * ra))) \<or>
         (\<exists>rb. ls_b s = Fin rb \<and> 2 \<le> (rb - ra) * 2 ^ ls_i s \<and> rt = (ra + rb) / 2)"
    unfolding bracket_inv_def by blast
  from b show ?thesis
  proof
    assume "ls_b s = PInf \<and> ((ls_i s = 0 \<and> ra = 0 \<and> rt = 1) \<or> (1 \<le> ra \<and> rt = 2 * ra))"
    with bracket_inv_first [OF a t pos] s' show ?thesis by blast
  next
    assume "\<exists>rb. ls_b s = Fin rb \<and> 2 \<le> (rb - ra) * 2 ^ ls_i s \<and> rt = (ra + rb) / 2"
    then obtain rb where "ls_b s = Fin rb" "2 \<le> (rb - ra) * 2 ^ ls_i s" "rt = (ra + rb) / 2"
      by blast
    with bracket_inv_halve [OF a t pos] s' show ?thesis by blast
  qed
qed

text \<open>A bracket shorter than \<open>minInterval\<close> needs at least 31 updates.\<close>

lemma bracket_inv_short:
  assumes "bracket_inv s" and "\<bar>ls_b s - ls_a s\<bar> < minInterval"
  shows "31 \<le> ls_i s"
proof -
  from assms(1) obtain ra rt where a: "ls_a s = Fin ra"
    and b: "ls_b s = PInf \<or> (\<exists>rb. ls_b s = Fin rb \<and> 2 \<le> (rb - ra) * 2 ^ ls_i s)"
    unfolding bracket_inv_def by blast
  from assms(2) a have "ls_b s \<noteq> PInf" by (auto simp: minus_number_def minInterval_def)
  with b obtain rb where rb: "ls_b s = Fin rb" and w: "2 \<le> (rb - ra) * 2 ^ ls_i s" by blast
  from assms(2) a rb have small: "\<bar>rb - ra\<bar> < 10 / 10 ^ 10"
    by (simp add: minus_number_def minInterval_def)
  show ?thesis
  proof (rule ccontr)
    assume "\<not> 31 \<le> ls_i s"
    then have "ls_i s \<le> 30" by simp
    then have "(2::real) ^ ls_i s \<le> 2 ^ 30" by (intro power_increasing) auto
    moreover from small have "rb - ra < 10 / 10 ^ 10" by linarith
    ultimately have "(rb - ra) * 2 ^ ls_i s \<le> (10 / 10 ^ 10) * 2 ^ 30"
      by (intro mult_mono) auto
    with w show False by simp
  qed
qed

section \<open>A discontinuous oracle\<close>

lemma jump_run:
  "awLoop [Fin 0] jump_oracle [Fin (- 1)] (Fin 0) (Fin (- 1)) 40
     \<lparr>ls_a = Fin 0, ls_b = PInf, ls_t = Fin 1, ls_i = 0\<rparr> =
   Inr \<lparr>ls_a = Fin 0, ls_b = Fin (1 / 2 ^ 30), ls_t = Fin (1 / 2 ^ 31), ls_i = 31\<rparr>"
  apply (subst awLoop.simps, simp add: ls_eval jump_oracle_def num_at_def nth_opt_def)+
  done

lemma quad_ls:
  "awLineSearch2 [Fin 10, Fin 7] (currObjectiveAndGradient quad_params) [Fin 10, Fin 7]
     (Fin (149 / 2)) 10 = Inr (Fin 1)"
  apply (simp add: awLineSearch2_def quad_curr negv_def dot_def sumN_def Let_def)
  apply (subst awLoop.simps)
  apply (simp add: ls_eval quad_curr)
  done

subsection \<open>C9: when the bracket loop stops\<close>

text \<open>
  Claim C9 puts the bracket threshold at \<open>10\<^sup>-\<^sup>1\<^sup>0\<close>. The code's constant is the literal
  \<open>10e-10\<close>, which is \<open>10\<^sup>-\<^sup>9\<close>. With \<open>maxSteps = 40\<close> the discontinuous oracle drives the
  bracket to \<open>[0, 2\<^sup>-\<^sup>3\<^sup>0]\<close> after 31 updates; there the loop stops, although the bracket is
  not shorter than \<open>10\<^sup>-\<^sup>1\<^sup>0\<close> and the count does not exceed \<open>maxSteps\<close>.
\<close>

theorem shouldStop_threshold_counterexample:
  "awLoop [Fin 0] jump_oracle [Fin (- 1)] (Fin 0) (Fin (- 1)) 40
     \<lparr>ls_a = Fin 0, ls_b = PInf, ls_t = Fin 1, ls_i = 0\<rparr> =
   Inr \<lparr>ls_a = Fin 0, ls_b = Fin (1 / 2 ^ 30), ls_t = Fin (1 / 2 ^ 31), ls_i = 31\<rparr> \<and>
   shouldStop 40 31 (Fin 0) (Fin (1 / 2 ^ 30)) (Fin (1 / 2 ^ 31)) \<and>
   \<not> (\<bar>Fin (1 / 2 ^ 30) - Fin 0\<bar> < Fin (1 / 10 ^ 10) \<or> (40::nat) < 31)"
  by (simp add: jump_run shouldStop_def minInterval_def minus_number_def)

text \<open>
  Claim C9, amended. The loop tests its stop condition before every iteration: the
  condition is \<open>|b - a| < 10\<^sup>-\<^sup>9\<close> or the iteration count exceeds \<open>maxSteps\<close>, and when
  it holds the loop returns at once, with the loop variables (so the most recent \<open>t\<close>)
  as they are and without evaluating the oracle. (\<open>minimize\<close> passes \<open>maxSteps = 10\<close>.)
\<close>

theorem awLoop_stops:
  "(shouldStop maxSteps (ls_i st) (ls_a st) (ls_b st) (ls_t st) \<longleftrightarrow>
      \<bar>ls_b st - ls_a st\<bar> < Fin (1 / 10 ^ 9) \<or> maxSteps < ls_i st) \<and>
   (\<bar>ls_b st - ls_a st\<bar> < Fin (1 / 10 ^ 9) \<or> maxSteps < ls_i st \<longrightarrow>
      awLoop xs0 f d fxs0 duf maxSteps st = Inr st)"
  by (subst awLoop.simps) (auto simp: shouldStop_def minInterval_def Let_def)

theorem awLoop_stops_witness:
  "(\<bar>Fin (1 / 2 ^ 30) - Fin 0\<bar> < Fin (1 / 10 ^ 9) \<or> (40::nat) < 31) \<and>
   awLoop [Fin 0] jump_oracle [Fin (- 1)] (Fin 0) (Fin (- 1)) 40
     \<lparr>ls_a = Fin 0, ls_b = Fin (1 / 2 ^ 30), ls_t = Fin (1 / 2 ^ 31), ls_i = 31\<rparr> =
   Inr \<lparr>ls_a = Fin 0, ls_b = Fin (1 / 2 ^ 30), ls_t = Fin (1 / 2 ^ 31), ls_i = 31\<rparr> \<and>
   awLoop [Fin 10, Fin 7] (currObjectiveAndGradient quad_params) [Fin (- 10), Fin (- 7)]
     (Fin (149 / 2)) (Fin (- 149)) 10
     \<lparr>ls_a = Fin 0, ls_b = Fin 1, ls_t = Fin (1 / 2), ls_i = 11\<rparr> =
   Inr \<lparr>ls_a = Fin 0, ls_b = Fin 1, ls_t = Fin (1 / 2), ls_i = 11\<rparr>"
proof -
  have h: "\<bar>Fin (1 / 2 ^ 30) - Fin 0\<bar> < Fin (1 / 10 ^ 9) \<or> (40::nat) < 31"
    by (simp add: minus_number_def)
  from h
    awLoop_stops [of 40 "\<lparr>ls_a = Fin 0, ls_b = Fin (1 / 2 ^ 30), ls_t = Fin (1 / 2 ^ 31),
      ls_i = 31\<rparr>" "[Fin 0]" jump_oracle "[Fin (- 1)]" "Fin 0" "Fin (- 1)"]
    awLoop_stops [of 10 "\<lparr>ls_a = Fin 0, ls_b = Fin 1, ls_t = Fin (1 / 2), ls_i = 11\<rparr>"
      "[Fin 10, Fin 7]" "currObjectiveAndGradient quad_params" "[Fin (- 10), Fin (- 7)]"
      "Fin (149 / 2)" "Fin (- 149)"]
  show ?thesis by simp
qed

subsection \<open>C6: sufficient decrease after the line search\<close>

text \<open>
  Claim C6: after the line search returns \<open>t > 0\<close>, either the iteration cap was hit or
  the Armijo inequality holds at \<open>t\<close>. The loop has a third exit, the bracket shorter than
  \<open>minInterval\<close>. With \<open>maxSteps = 40\<close> and the discontinuous oracle it is taken after 31
  updates, below the cap, and the Armijo inequality fails at the returned \<open>t = 2\<^sup>-\<^sup>3\<^sup>1\<close>.
\<close>

theorem awLineSearch2_short_bracket_counterexample:
  "awLineSearch2 [Fin 0] jump_oracle [Fin 1] (Fin 0) 40 = Inr (Fin (1 / 2 ^ 31)) \<and>
   Fin 0 < Fin (1 / 2 ^ 31) \<and>
   awLoop [Fin 0] jump_oracle (negv [Fin 1]) (Fin 0) (Fin (- 1)) 40
     \<lparr>ls_a = Fin 0, ls_b = PInf, ls_t = Fin 1, ls_i = 0\<rparr> =
   Inr \<lparr>ls_a = Fin 0, ls_b = Fin (1 / 2 ^ 30), ls_t = Fin (1 / 2 ^ 31), ls_i = 31\<rparr> \<and>
   \<not> (40::nat) < 31 \<and>
   addv [Fin 0] (scalev (Fin (1 / 2 ^ 31)) (negv [Fin 1])) = Inr [Fin (- (1 / 2 ^ 31))] \<and>
   jump_oracle [Fin (- (1 / 2 ^ 31))] =
     Inr \<lparr>fn_f = Fin (1 - 1 / 2 ^ 31), gradf = [Fin 1],
          fn_objEngs = [Fin (1 - 1 / 2 ^ 31)], fn_constrEngs = []\<rparr> \<and>
   \<not> Fin (1 - 1 / 2 ^ 31) \<le> Fin 0 + c1 * Fin (1 / 2 ^ 31) * Fin (- 1)"
  by (simp add: awLineSearch2_def jump_run negv_def dot_def sumN_def addv_def scalev_def
      jump_oracle_def num_at_def nth_opt_def c1_def less_eq_number_def Let_def)

text \<open>
  Claim C6, amended. After the line search returns \<open>t\<close> (which is positive), one of three
  holds: the iteration count exceeded \<open>maxSteps\<close>, or the bracket is shorter than
  \<open>minInterval\<close>, or the Armijo inequality \<open>\<phi>(x\<^sub>0 + t d) \<le> \<phi>\<^sub>0 + c\<^sub>1 t \<langle>d, g\<^sub>0\<rangle>\<close> holds at
  \<open>t\<close>. A bracket that short needs 31 updates, so for \<open>maxSteps \<le> 30\<close>, the default 10
  included, the claim holds as it is written: the cap was hit or Armijo holds.
\<close>

theorem awLineSearch2_sufficient_decrease:
  assumes "awLineSearch2 xs0 f g fxs0 maxSteps = Inr t"
  shows "\<exists>r0 duf st.
           f xs0 = Inr r0 \<and> dot (negv g) (gradf r0) = Inr duf \<and>
           awLoop xs0 f (negv g) fxs0 duf maxSteps
             \<lparr>ls_a = Fin 0, ls_b = PInf, ls_t = Fin 1, ls_i = 0\<rparr> = Inr st \<and>
           ls_t st = t \<and> Fin 0 < t \<and>
           (maxSteps < ls_i st \<or> \<bar>ls_b st - ls_a st\<bar> < minInterval \<or>
            (\<exists>p r. addv xs0 (scalev t (negv g)) = Inr p \<and> f p = Inr r \<and>
                   fn_f r \<le> fxs0 + c1 * t * duf)) \<and>
           (maxSteps \<le> 30 \<longrightarrow>
              maxSteps < ls_i st \<or>
              (\<exists>p r. addv xs0 (scalev t (negv g)) = Inr p \<and> f p = Inr r \<and>
                     fn_f r \<le> fxs0 + c1 * t * duf))"
proof -
  from assms obtain r0 duf st where r0: "f xs0 = Inr r0"
    and duf: "dot (negv g) (gradf r0) = Inr duf"
    and loop: "awLoop xs0 f (negv g) fxs0 duf maxSteps
             \<lparr>ls_a = Fin 0, ls_b = PInf, ls_t = Fin 1, ls_i = 0\<rparr> = Inr st"
    and t: "ls_t st = t"
    by (auto simp: awLineSearch2_def Let_def split: sum.splits)
  have "bracket_inv st \<and>
     (shouldStop maxSteps (ls_i st) (ls_a st) (ls_b st) (ls_t st) \<or>
      (\<exists>p r. addv xs0 (scalev (ls_t st) (negv g)) = Inr p \<and> f p = Inr r \<and>
         armijo fxs0 duf (ls_t st) (fn_f r) \<and>
         weakWolfe (negv g) duf (ls_t st) (gradf r) = Inr True))"
    by (rule awLoop_result [OF loop, where P = bracket_inv])
       (auto simp: bracket_inv_init intro: bracket_inv_step)
  then have inv: "bracket_inv st"
    and ex: "shouldStop maxSteps (ls_i st) (ls_a st) (ls_b st) (ls_t st) \<or>
      (\<exists>p r. addv xs0 (scalev (ls_t st) (negv g)) = Inr p \<and> f p = Inr r \<and>
         armijo fxs0 duf (ls_t st) (fn_f r) \<and>
         weakWolfe (negv g) duf (ls_t st) (gradf r) = Inr True)"
    by blast+
  let ?A = "\<exists>p r. addv xs0 (scalev t (negv g)) = Inr p \<and> f p = Inr r \<and>
                   fn_f r \<le> fxs0 + c1 * t * duf"
  from ex t have three: "maxSteps < ls_i st \<or> \<bar>ls_b st - ls_a st\<bar> < minInterval \<or> ?A"
    by (auto simp: shouldStop_def armijo_def Let_def)
  from inv t have pos: "Fin 0 < t" by (auto simp: bracket_inv_def)
  have two: "maxSteps < ls_i st \<or> ?A" if "maxSteps \<le> 30"
  proof (cases "\<bar>ls_b st - ls_a st\<bar> < minInterval")
    case True
    from bracket_inv_short [OF inv True] that show ?thesis by simp
  next
    case False
    with three show ?thesis by blast
  qed
  from r0 duf loop t pos three two show ?thesis by blast
qed

theorem awLineSearch2_sufficient_decrease_witness:
  "awLineSearch2 [Fin 10, Fin 7] (currObjectiveAndGradient quad_params) [Fin 10, Fin 7]
     (Fin (149 / 2)) 10 = Inr (Fin 1) \<and>
   (\<exists>r0 duf st.
      currObjectiveAndGradient quad_params [Fin 10, Fin 7] = Inr r0 \<and>
      dot (negv [Fin 10, Fin 7]) (gradf r0) = Inr duf \<and>
      awLoop [Fin 10, Fin 7] (currObjectiveAndGradient quad_params) (negv [Fin 10, Fin 7])
        (Fin (149 / 2)) duf 10
        \<lparr>ls_a = Fin 0, ls_b = PInf, ls_t = Fin 1, ls_i = 0\<rparr> = Inr st \<and>
      ls_t st = Fin 1 \<and> Fin 0 < Fin 1 \<and>
      (10 < ls_i st \<or> \<bar>ls_b st - ls_a st\<bar> < minInterval \<or>
       (\<exists>p r. addv [Fin 10, Fin 7] (scalev (Fin 1) (negv [Fin 10, Fin 7])) = Inr p \<and>
              currObjectiveAndGradient quad_params p = Inr r \<and>
              fn_f r \<le> Fin (149 / 2) + c1 * Fin 1 * duf)) \<and>
      ((10::nat) \<le> 30 \<longrightarrow>
         10 < ls_i st \<or>
         (\<exists>p r. addv [Fin 10, Fin 7] (scalev (Fin 1) (negv [Fin 10, Fin 7])) = Inr p \<and>
                currObjectiveAndGradient quad_params p = Inr r \<and>
                fn_f r \<le> Fin (149 / 2) + c1 * Fin 1 * duf)))"
  using quad_ls awLineSearch2_sufficient_decrease [OF quad_ls] by (rule conjI)

subsection \<open>C10: the energy minimize returns\<close>

lemma minimize_body_Break_facts:
  "minimize_body f s = Inr (Break s') \<Longrightarrow> m_failed s' \<or> m_normGradfxs s' < uoStop"
  by (auto simp: minimize_body_def Let_def split: sum.splits if_splits)

lemma minimize_body_Break_i:
  "minimize_body f st = Inr (Break st') \<Longrightarrow> m_i st' = m_i st"
  by (auto simp: minimize_body_def Let_def split: sum.splits if_splits)

text \<open>An iteration that goes on is the evaluation, the preconditioning, the line search
  and the update, and nothing else.\<close>

lemma minimize_body_Continue_run:
  assumes "minimize_body f s = Inr (Continue s')"
  shows "\<exists>r lr ng t.
     f (m_xs s) = Inr r \<and>
     lbfgs (m_xs s) (gradf r) (m_newLbfgsInfo s) = Inr lr \<and>
     dot (gradf r) (gradfxsPreconditioned lr) = Inr ng \<and> \<not> ng < uoStop \<and>
     awLineSearch2 (m_xs s) f (gradfxsPreconditioned lr) (fn_f r) 10 = Inr t \<and>
     s' = s\<lparr>m_fxs := fn_f r, m_gradfxs := gradf r,
            m_objEngs := fn_objEngs r, m_constrEngs := fn_constrEngs r,
            m_newLbfgsInfo := updatedLbfgsInfo lr,
            m_gradientPreconditioned := gradfxsPreconditioned lr,
            m_normGradfxs := ng, m_t := t,
            m_xs := map (\<lambda>j. m_xs s ! j - t * num_at (gradfxsPreconditioned lr) j)
                      [0..<length (m_xs s)],
            m_i := m_i s + 1\<rparr>"
  using assms
  by (auto simp: minimize_body_def Let_def split: sum.splits if_splits)

lemma awLineSearch2_positive:
  assumes "awLineSearch2 xs0 f g fxs0 maxSteps = Inr t"
  shows "Fin 0 < t"
proof -
  from assms obtain duf st where
    loop: "awLoop xs0 f (negv g) fxs0 duf maxSteps
             \<lparr>ls_a = Fin 0, ls_b = PInf, ls_t = Fin 1, ls_i = 0\<rparr> = Inr st"
    and t: "ls_t st = t"
    by (auto simp: awLineSearch2_def Let_def split: sum.splits)
  have "bracket_inv st \<and>
     (shouldStop maxSteps (ls_i st) (ls_a st) (ls_b st) (ls_t st) \<or>
      (\<exists>p r. addv xs0 (scalev (ls_t st) (negv g)) = Inr p \<and> f p = Inr r \<and>
         armijo fxs0 duf (ls_t st) (fn_f r) \<and>
         weakWolfe (negv g) duf (ls_t st) (gradf r) = Inr True))"
    by (rule awLoop_result [OF loop, where P = bracket_inv])
       (auto simp: bracket_inv_init intro: bracket_inv_step)
  with t show ?thesis by (auto simp: bracket_inv_def)
qed

text \<open>
  A run that ends neither failed nor converged is a run with one step less, which used
  all of its steps, followed by one more iteration.
\<close>

lemma minimize_loop_last:
  assumes "minimize_loop f n st = Inr st'" and "m_i st < n"
    and "\<not> m_failed st'" and "\<not> m_normGradfxs st' < uoStop"
  shows "\<exists>stPrev. minimize_loop f (n - 1) st = Inr stPrev \<and> m_i stPrev = n - 1 \<and>
           minimize_body f stPrev = Inr (Continue st')"
  using assms(1,2)
proof (induction "nat (n - m_i st)" arbitrary: st rule: less_induct)
  case less
  from less.prems obtain ls where body: "minimize_body f st = Inr ls"
    by (subst (asm) minimize_loop_unfold) (auto split: sum.splits)
  show ?case
  proof (cases ls)
    case (Break s')
    with less.prems body have "st' = s'"
      by (subst (asm) minimize_loop_unfold) simp
    with minimize_body_Break_facts [of f st s'] body Break assms(3,4) show ?thesis by simp
  next
    case (Continue s')
    with less.prems body have loop: "minimize_loop f n s' = Inr st'"
      by (subst (asm) minimize_loop_unfold) simp
    from body Continue have i: "m_i s' = m_i st + 1"
      by (simp add: minimize_body_Continue_i)
    show ?thesis
    proof (cases "m_i s' < n")
      case True
      with i have "nat (n - m_i s') < nat (n - m_i st)" by simp
      from less.hyps [OF this loop True] obtain stPrev where
        p: "minimize_loop f (n - 1) s' = Inr stPrev" "m_i stPrev = n - 1"
           "minimize_body f stPrev = Inr (Continue st')" by blast
      from True i have "m_i st < n - 1" by simp
      with body Continue p(1) have "minimize_loop f (n - 1) st = Inr stPrev"
        by (subst minimize_loop_unfold) simp
      with p show ?thesis by blast
    next
      case False
      with loop have "st' = s'" by (subst (asm) minimize_loop_unfold) simp
      moreover from False i less.prems(2) have e: "m_i st = n - 1" by simp
      then have "minimize_loop f (n - 1) st = Inr st"
        by (subst minimize_loop_unfold) simp
      ultimately show ?thesis using body Continue e by blast
    qed
  qed
qed

lemma minimize_loop_running:
  assumes "minimize_loop f n st = Inr st'" and "m_i st = 0" and "m_i st' = n" and "0 < n"
  shows "\<not> m_normGradfxs st' < uoStop"
proof -
  let ?P = "\<lambda>s. m_i s \<le> n \<and> (m_i s = n \<longrightarrow> \<not> m_normGradfxs s < uoStop)"
  have "?P st'"
  proof (rule minimize_loop_invariant [OF assms(1), where P = ?P])
    show "?P st" using assms(2,4) by simp
  next
    fix s s'
    assume P: "?P s" and lt: "m_i s < n"
      and b: "minimize_body f s = Inr (Break s') \<or> minimize_body f s = Inr (Continue s')"
    from b show "?P s'"
    proof
      assume "minimize_body f s = Inr (Break s')"
      from minimize_body_Break_i [OF this] lt show ?thesis by simp
    next
      assume c: "minimize_body f s = Inr (Continue s')"
      from minimize_body_Continue_run [OF c] obtain ng where
        "\<not> ng < uoStop" "m_normGradfxs s' = ng" by auto
      with minimize_body_Continue_i [OF c] lt show ?thesis by simp
    qed
  qed
  with assms(3) show ?thesis by simp
qed

lemma quad_minimize_one:
  "minimize [Fin 10, Fin 7] (currObjectiveAndGradient quad_params) defaultLbfgsParams 1 =
     Inr \<lparr>oi_xs = [Fin 0, Fin 0], oi_energyVal = Fin (149 / 2), oi_normGrad = Fin 149,
          oi_newLbfgsInfo =
            \<lparr>lastState = Some [Fin 10, Fin 7], lastGrad = Some [Fin 10, Fin 7],
             s_list = [], y_list = [], numUnconstrSteps = 1, memSize = 17\<rparr>,
          oi_gradient = [Fin 10, Fin 7],
          oi_gradientPreconditioned = [Fin 10, Fin 7], oi_failed = False,
          oi_objEngs = [Fin (149 / 2)], oi_constrEngs = []\<rparr>"
  apply (simp add: minimize_def MIN_STEPS_def repeat_def)
  apply (subst minimize_loop.simps)
  apply (simp add: min_eval quad_curr quad_ls)
  apply (subst minimize_loop.simps)
  apply simp
  done

text \<open>Two steps on the discontinuous oracle, from \<open>x = 5\<close>.\<close>

lemma jump_at: "jump_oracle [Fin x] =
   Inr \<lparr>fn_f = Fin (x + (if x < 0 then 1 else 0)), gradf = [Fin 1],
        fn_objEngs = [Fin (x + (if x < 0 then 1 else 0))], fn_constrEngs = []\<rparr>"
  by (simp add: jump_oracle_def num_at_def nth_opt_def Let_def)

lemma jump_ls_one:
  "awLineSearch2 [Fin 5] jump_oracle [Fin 1] (Fin 5) 10 = Inr (Fin 2048)"
  apply (simp add: awLineSearch2_def jump_at negv_def dot_def sumN_def Let_def)
  apply (subst awLoop.simps, simp add: ls_eval jump_at)+
  done

lemma jump_minimize_one:
  "minimize [Fin 5] jump_oracle defaultLbfgsParams 1 =
     Inr \<lparr>oi_xs = [Fin (- 2043)], oi_energyVal = Fin 5, oi_normGrad = Fin 1,
          oi_newLbfgsInfo =
            \<lparr>lastState = Some [Fin 5], lastGrad = Some [Fin 1],
             s_list = [], y_list = [], numUnconstrSteps = 1, memSize = 17\<rparr>,
          oi_gradient = [Fin 1], oi_gradientPreconditioned = [Fin 1], oi_failed = False,
          oi_objEngs = [Fin 5], oi_constrEngs = []\<rparr>"
  apply (simp add: minimize_def MIN_STEPS_def repeat_def)
  apply (subst minimize_loop.simps)
  apply (simp add: min_eval jump_at jump_ls_one)
  apply (subst minimize_loop.simps)
  apply simp
  done

lemma jump_ls_two:
  "awLineSearch2 [Fin (- 2043)] jump_oracle [Fin 419430400000000000] (Fin (- 2042)) 10 =
     Inr (Fin 2048)"
  apply (simp add: awLineSearch2_def jump_at negv_def dot_def sumN_def Let_def)
  apply (subst awLoop.simps, simp add: ls_eval jump_at)+
  done

lemma jump_minimize_two:
  "minimize [Fin 5] jump_oracle defaultLbfgsParams 2 =
     Inr \<lparr>oi_xs = [Fin (- 858993459200000002043)], oi_energyVal = Fin (- 2042),
          oi_normGrad = Fin 419430400000000000,
          oi_newLbfgsInfo =
            \<lparr>lastState = Some [Fin (- 2043)], lastGrad = Some [Fin 1],
             s_list = [[Fin (- 2048)]], y_list = [[Fin 0]], numUnconstrSteps = 2,
             memSize = 17\<rparr>,
          oi_gradient = [Fin 1], oi_gradientPreconditioned = [Fin 419430400000000000],
          oi_failed = False, oi_objEngs = [Fin (- 2042)], oi_constrEngs = []\<rparr>"
  apply (simp add: minimize_def MIN_STEPS_def repeat_def)
  apply (subst minimize_loop.simps)
  apply (simp add: min_eval jump_at jump_ls_one)
  apply (subst minimize_loop.simps)
  apply (simp add: containsNaN_False jump_at lbfgs_eval BREAK_EARLY_def
      USE_LINE_SEARCH_def unconstrainedConverged2_def uoStop_def dot_def)
  apply (simp add: jump_ls_two min_eval)
  apply (subst minimize_loop.simps)
  apply simp
  done

text \<open>
  Claim C10. When \<open>minimize\<close> returns without failure and without the early convergence
  break (so its loop ran out of steps), the energy it returns is the oracle's energy at
  the iterate before the last position update, and not at the point it returns. That
  iterate \<open>xsPrev\<close> is the start \<open>xs0\<close> when \<open>numSteps = 1\<close>, and otherwise the point that
  \<open>minimize\<close> returns with one step less (again without failure or convergence), together
  with the L-BFGS memory returned there. The whole result is determined by one
  evaluation \<open>r = f(xsPrev)\<close>: the energy, the gradient and the per-term energies are
  those of \<open>r\<close>, the direction and the memory are those of \<open>lbfgs\<close> at \<open>xsPrev\<close>, the step
  length \<open>t\<close> is the line search's at \<open>xsPrev\<close> and is positive, and the returned point is
  \<open>xsPrev - t \<cdot> gradientPreconditioned\<close>. Every field of the result other than the point
  is computed from the evaluation at \<open>xsPrev\<close>.
\<close>

theorem minimize_energy_before_last_update:
  assumes "minimize xs0 f info n = Inr res"
    and "\<not> oi_failed res" and "\<not> oi_normGrad res < uoStop"
  shows "\<exists>xsPrev infoPrev r lr t.
           (if n = 1 then xsPrev = xs0 \<and> infoPrev = info
            else \<exists>prev. minimize xs0 f info (n - 1) = Inr prev \<and>
                   \<not> oi_failed prev \<and> \<not> oi_normGrad prev < uoStop \<and>
                   xsPrev = oi_xs prev \<and> infoPrev = oi_newLbfgsInfo prev) \<and>
           f xsPrev = Inr r \<and>
           lbfgs xsPrev (gradf r) infoPrev = Inr lr \<and>
           awLineSearch2 xsPrev f (gradfxsPreconditioned lr) (fn_f r) 10 = Inr t \<and>
           Fin 0 < t \<and>
           dot (gradf r) (gradfxsPreconditioned lr) = Inr (oi_normGrad res) \<and>
           res = \<lparr>oi_xs = map (\<lambda>j. xsPrev ! j - t * num_at (gradfxsPreconditioned lr) j)
                            [0..<length xsPrev],
                  oi_energyVal = fn_f r, oi_normGrad = oi_normGrad res,
                  oi_newLbfgsInfo = updatedLbfgsInfo lr, oi_gradient = gradf r,
                  oi_gradientPreconditioned = gradfxsPreconditioned lr, oi_failed = False,
                  oi_objEngs = fn_objEngs r, oi_constrEngs = fn_constrEngs r\<rparr>"
proof -
  let ?init = "\<lparr>m_xs = xs0, m_fxs = Fin 0,
                 m_gradfxs = repeat (length xs0) (Fin 0),
                 m_gradientPreconditioned = repeat (length xs0) (Fin 0),
                 m_normGradfxs = Fin 0, m_i = 0, m_t = Fin (1 / 10000),
                 m_failed = False, m_objEngs = [], m_constrEngs = [],
                 m_newLbfgsInfo = info\<rparr>"
  from assms(1) obtain st where n: "1 \<le> n"
    and loop: "minimize_loop f n ?init = Inr st"
    and res: "res = \<lparr>oi_xs = m_xs st, oi_energyVal = m_fxs st,
                  oi_normGrad = m_normGradfxs st,
                  oi_newLbfgsInfo = m_newLbfgsInfo st, oi_gradient = m_gradfxs st,
                  oi_gradientPreconditioned = m_gradientPreconditioned st,
                  oi_failed = m_failed st, oi_objEngs = m_objEngs st,
                  oi_constrEngs = m_constrEngs st\<rparr>"
    by (auto simp: minimize_def MIN_STEPS_def split: if_splits sum.splits)
  from assms(2,3) res have ok: "\<not> m_failed st" "\<not> m_normGradfxs st < uoStop" by simp_all
  from n have "m_i ?init < n" by simp
  from minimize_loop_last [OF loop this ok] obtain stPrev where
    prev: "minimize_loop f (n - 1) ?init = Inr stPrev" and i: "m_i stPrev = n - 1"
    and body: "minimize_body f stPrev = Inr (Continue st)" by blast
  from minimize_body_Continue_run [OF body] obtain r lr ng t where
    r: "f (m_xs stPrev) = Inr r"
    and lr: "lbfgs (m_xs stPrev) (gradf r) (m_newLbfgsInfo stPrev) = Inr lr"
    and ng: "dot (gradf r) (gradfxsPreconditioned lr) = Inr ng"
    and t: "awLineSearch2 (m_xs stPrev) f (gradfxsPreconditioned lr) (fn_f r) 10 = Inr t"
    and st: "st = stPrev\<lparr>m_fxs := fn_f r, m_gradfxs := gradf r,
            m_objEngs := fn_objEngs r, m_constrEngs := fn_constrEngs r,
            m_newLbfgsInfo := updatedLbfgsInfo lr,
            m_gradientPreconditioned := gradfxsPreconditioned lr,
            m_normGradfxs := ng, m_t := t,
            m_xs := map (\<lambda>j. m_xs stPrev ! j - t * num_at (gradfxsPreconditioned lr) j)
                      [0..<length (m_xs stPrev)],
            m_i := m_i stPrev + 1\<rparr>" by blast
  have pos: "Fin 0 < t" by (rule awLineSearch2_positive [OF t])
  from st ok(1) have nf: "\<not> m_failed stPrev" by simp
  have start: "if n = 1 then m_xs stPrev = xs0 \<and> m_newLbfgsInfo stPrev = info
            else \<exists>prev. minimize xs0 f info (n - 1) = Inr prev \<and>
                   \<not> oi_failed prev \<and> \<not> oi_normGrad prev < uoStop \<and>
                   m_xs stPrev = oi_xs prev \<and> m_newLbfgsInfo stPrev = oi_newLbfgsInfo prev"
  proof (cases "n = 1")
    case True
    with prev have "stPrev = ?init" by (subst (asm) minimize_loop_unfold) simp
    with True show ?thesis by simp
  next
    case False
    with n have n2: "0 < n - 1" by simp
    have "\<not> m_normGradfxs stPrev < uoStop"
      by (rule minimize_loop_running [OF prev _ i n2]) simp
    with prev nf n2 False show ?thesis by (simp add: minimize_def MIN_STEPS_def)
  qed
  from res st ok(1) have
    "res = \<lparr>oi_xs = map (\<lambda>j. m_xs stPrev ! j - t * num_at (gradfxsPreconditioned lr) j)
                            [0..<length (m_xs stPrev)],
                  oi_energyVal = fn_f r, oi_normGrad = oi_normGrad res,
                  oi_newLbfgsInfo = updatedLbfgsInfo lr, oi_gradient = gradf r,
                  oi_gradientPreconditioned = gradfxsPreconditioned lr, oi_failed = False,
                  oi_objEngs = fn_objEngs r, oi_constrEngs = fn_constrEngs r\<rparr>"
    and "ng = oi_normGrad res" by simp_all
  with start r lr t pos ng show ?thesis by blast
qed

text \<open>
  In the first run of the witness the two disagree: the energy returned is \<open>149/2\<close>, the
  energy of \<open>(10, 7)\<close>, while the point returned is \<open>(0, 0)\<close>, whose energy is \<open>0\<close>. The
  second run takes two steps: the energy returned, \<open>-2042\<close>, is the energy of the point
  \<open>-2043\<close> that \<open>minimize\<close> returns after one step.
\<close>

theorem minimize_energy_before_last_update_witness:
  "minimize [Fin 10, Fin 7] (currObjectiveAndGradient quad_params) defaultLbfgsParams 1 =
     Inr \<lparr>oi_xs = [Fin 0, Fin 0], oi_energyVal = Fin (149 / 2), oi_normGrad = Fin 149,
          oi_newLbfgsInfo =
            \<lparr>lastState = Some [Fin 10, Fin 7], lastGrad = Some [Fin 10, Fin 7],
             s_list = [], y_list = [], numUnconstrSteps = 1, memSize = 17\<rparr>,
          oi_gradient = [Fin 10, Fin 7],
          oi_gradientPreconditioned = [Fin 10, Fin 7], oi_failed = False,
          oi_objEngs = [Fin (149 / 2)], oi_constrEngs = []\<rparr> \<and>
   \<not> Fin 149 < uoStop \<and>
   (\<exists>xsPrev infoPrev r lr t.
      (xsPrev = [Fin 10, Fin 7] \<and> infoPrev = defaultLbfgsParams) \<and>
      currObjectiveAndGradient quad_params xsPrev = Inr r \<and>
      lbfgs xsPrev (gradf r) infoPrev = Inr lr \<and>
      awLineSearch2 xsPrev (currObjectiveAndGradient quad_params)
        (gradfxsPreconditioned lr) (fn_f r) 10 = Inr t \<and>
      Fin 0 < t \<and>
      dot (gradf r) (gradfxsPreconditioned lr) = Inr (Fin 149) \<and>
      [Fin 0, Fin 0] =
        map (\<lambda>j. xsPrev ! j - t * num_at (gradfxsPreconditioned lr) j) [0..<length xsPrev] \<and>
      Fin (149 / 2) = fn_f r \<and>
      \<lparr>lastState = Some [Fin 10, Fin 7], lastGrad = Some [Fin 10, Fin 7],
       s_list = [], y_list = [], numUnconstrSteps = 1, memSize = 17\<rparr> = updatedLbfgsInfo lr \<and>
      [Fin 10, Fin 7] = gradf r \<and>
      [Fin 10, Fin 7] = gradfxsPreconditioned lr \<and>
      [Fin (149 / 2)] = fn_objEngs r \<and> [] = fn_constrEngs r) \<and>
   currObjectiveAndGradient quad_params [Fin 0, Fin 0] =
     Inr \<lparr>fn_f = Fin 0, gradf = [Fin 0, Fin 0], fn_objEngs = [Fin 0], fn_constrEngs = []\<rparr> \<and>
   minimize [Fin 5] jump_oracle defaultLbfgsParams 2 =
     Inr \<lparr>oi_xs = [Fin (- 858993459200000002043)], oi_energyVal = Fin (- 2042),
          oi_normGrad = Fin 419430400000000000,
          oi_newLbfgsInfo =
            \<lparr>lastState = Some [Fin (- 2043)], lastGrad = Some [Fin 1],
             s_list = [[Fin (- 2048)]], y_list = [[Fin 0]], numUnconstrSteps = 2,
             memSize = 17\<rparr>,
          oi_gradient = [Fin 1], oi_gradientPreconditioned = [Fin 419430400000000000],
          oi_failed = False, oi_objEngs = [Fin (- 2042)], oi_constrEngs = []\<rparr> \<and>
   \<not> Fin 419430400000000000 < uoStop \<and>
   (\<exists>xsPrev infoPrev r lr t.
      (\<exists>prev. minimize [Fin 5] jump_oracle defaultLbfgsParams 1 = Inr prev \<and>
         \<not> oi_failed prev \<and> \<not> oi_normGrad prev < uoStop \<and>
         xsPrev = oi_xs prev \<and> infoPrev = oi_newLbfgsInfo prev) \<and>
      jump_oracle xsPrev = Inr r \<and>
      lbfgs xsPrev (gradf r) infoPrev = Inr lr \<and>
      awLineSearch2 xsPrev jump_oracle (gradfxsPreconditioned lr) (fn_f r) 10 = Inr t \<and>
      Fin 0 < t \<and>
      dot (gradf r) (gradfxsPreconditioned lr) = Inr (Fin 419430400000000000) \<and>
      [Fin (- 858993459200000002043)] =
        map (\<lambda>j. xsPrev ! j - t * num_at (gradfxsPreconditioned lr) j) [0..<length xsPrev] \<and>
      Fin (- 2042) = fn_f r \<and>
      \<lparr>lastState = Some [Fin (- 2043)], lastGrad = Some [Fin 1],
       s_list = [[Fin (- 2048)]], y_list = [[Fin 0]], numUnconstrSteps = 2,
       memSize = 17\<rparr> = updatedLbfgsInfo lr \<and>
      [Fin 1] = gradf r \<and>
      [Fin 419430400000000000] = gradfxsPreconditioned lr \<and>
      [Fin (- 2042)] = fn_objEngs r \<and> [] = fn_constrEngs r)"
  using minimize_energy_before_last_update [OF quad_minimize_one]
    minimize_energy_before_last_update [OF jump_minimize_two]
  by (simp add: quad_minimize_one jump_minimize_two jump_minimize_one uoStop_def quad_curr)

lemma quad_state_hist_step:
  "\<exists>s'. step (Fin 1) quad_state_hist 1 = Inr s' \<and>
        s_list (lbfgsInfo (params s')) = [[Fin (- 10), Fin (- 7)]]"
  apply (simp add: step_def quad_state_hist_def Let_def minimize_def MIN_STEPS_def repeat_def)
  apply (subst minimize_loop.simps)
  apply (simp add: containsNaN_False quad_curr lbfgs_eval BREAK_EARLY_def USE_LINE_SEARCH_def
      unconstrainedConverged2_def uoStop_def dot_def)
  apply (simp add: awLineSearch2_def quad_curr negv_def dot_def sumN_def Let_def)
  apply (subst awLoop.simps, simp add: ls_eval quad_curr)+
  apply (simp add: normList_def sumN_def num_at_def nth_opt_def minus_number_def)
  apply (subst minimize_loop.simps)
  apply (simp add: unconstrainedConverged2_def uoStop_def Let_def)
  done

theorem step_history_bound_witness:
  "history_ok (lbfgsInfo (genOptProblem (Fin 1) quad_compile quad_inputs quad_objEngs [])) \<and>
   history_ok (lbfgsInfo (params quad_state_hist)) \<and>
   (\<exists>s'. step (Fin 1) quad_state_hist 1 = Inr s' \<and>
         s_list (lbfgsInfo (params s')) = [[Fin (- 10), Fin (- 7)]] \<and>
         length (s_list (lbfgsInfo (params s'))) = length (y_list (lbfgsInfo (params s'))) \<and>
         length (s_list (lbfgsInfo (params s'))) \<le> memSize (lbfgsInfo (params s')))"
proof -
  from quad_state_hist_step obtain s' where s': "step (Fin 1) quad_state_hist 1 = Inr s'"
    and l: "s_list (lbfgsInfo (params s')) = [[Fin (- 10), Fin (- 7)]]" by blast
  have h: "history_ok (lbfgsInfo (params quad_state_hist))"
    by (simp add: quad_state_hist_def history_ok_def)
  from step_history_bound [where ?w0.0 = "Fin 1" and compile = quad_compile
      and inputs = quad_inputs and objs = quad_objEngs and cs = "[]"
      and s = quad_state_hist and w = "Fin 1" and k = 1 and s' = s'] h s' l
  show ?thesis by blast
qed

subsection \<open>C3: the energy the builder's oracle computes\<close>

lemma foldl_plus_Fin: "foldl (+) (Fin a) (map Fin rs) = Fin (a + sum_list rs)"
  by (induction rs arbitrary: a) (simp_all add: add.assoc)

lemma Math_max_Fin: "Math_max (Fin a) (Fin b) = Fin (max a b)"
  by (simp add: Math_max_def max_def)

lemma evalNum_penalties:
  assumes "map (evalNum inp) cs = map Fin rs"
  shows "map (evalNum inp) (map toPenalty cs) = map Fin (map (\<lambda>c. (max c 0)\<^sup>2) rs)"
  using assms
proof (induction cs arbitrary: rs)
  case Nil
  then show ?case by simp
next
  case (Cons c cs)
  then obtain r rs' where rs: "rs = r # rs'" by (cases rs) auto
  with Cons.prems have "evalNum inp c = Fin r" "map (evalNum inp) cs = map Fin rs'" by simp_all
  with Cons.IH [of rs'] rs show ?case
    by (simp add: toPenalty_def Math_max_Fin power2_eq_square)
qed

lemma pen_oracle_eval:
  "objectiveAndGradient
     (genOptProblem (Fin 1) pen_compile quad_inputs pen_objEngs pen_constrEngs)
     (Fin 2) (Some {}) [Fin 10, Fin 7] =
   Inr \<lparr>fn_f = Fin 800010, gradf = [Fin 1, Fin 800000],
        fn_objEngs = [Fin 10], fn_constrEngs = [Fin 2]\<rparr>"
  by (simp add: genOptProblem_def genOptProblem_objectiveAndGradient_def Let_def
      pen_compile_def quad_inputs_def pen_objEngs_def pen_constrEngs_def
      maskedGradient_def nth_opt_def num_at_def evalEnergyOnCustom_def vsum_def add_def
      mul_def toPenalty_def constraintWeight_def Math_max_def minus_number_def)

text \<open>
  Claim C3 gives the fixed multiplier \<open>c\<^sub>0\<close> as \<open>10\<^sup>4\<close>. The code's constant is the literal
  \<open>10e4\<close>, which is \<open>10\<^sup>5\<close>: at \<open>x = (10, 7)\<close> and \<open>w = 2\<close> the oracle of the second example
  returns \<open>10 + 10\<^sup>5 \<cdot> 2 \<cdot> 2\<^sup>2 = 800010\<close>, not \<open>10 + 10\<^sup>4 \<cdot> 2 \<cdot> 2\<^sup>2 = 80010\<close>.
\<close>

theorem constraintWeight_counterexample:
  "objectiveAndGradient
     (genOptProblem (Fin 1) pen_compile quad_inputs pen_objEngs pen_constrEngs)
     (Fin 2) (Some {}) [Fin 10, Fin 7] =
   Inr \<lparr>fn_f = Fin 800010, gradf = [Fin 1, Fin 800000],
        fn_objEngs = [Fin 10], fn_constrEngs = [Fin 2]\<rparr> \<and>
   Fin 800010 \<noteq> Fin (10 + 10 ^ 4 * 2 * (max (7 - 5) 0)\<^sup>2)"
  by (simp add: pen_oracle_eval)

text \<open>
  Claim C3, amended. For a compiler that evaluates the graph, the oracle the builder
  produces for the weight \<open>w\<close> returns, at a point where the objective terms have the
  finite values \<open>o\<^sub>j\<close> and the constraint terms the finite values \<open>c\<^sub>i\<close>, the energy
  \<open>\<Sum>\<^sub>j o\<^sub>j + c\<^sub>0 \<cdot> w \<cdot> \<Sum>\<^sub>i max(c\<^sub>i, 0)\<^sup>2\<close> with \<open>c\<^sub>0 = 10\<^sup>5\<close>.
\<close>

theorem builder_oracle_energy:
  assumes compile: "\<forall>G S inp. primary (compile G S inp) = evalNum inp G"
    and len: "length xs = length inputs"
    and objs: "map (evalNum (xs @ [Fin w])) objEngs = map Fin os"
    and cs: "map (evalNum (xs @ [Fin w])) constrEngs = map Fin cs"
    and r: "objectiveAndGradient (genOptProblem w0 compile inputs objEngs constrEngs)
              (Fin w) frozen xs = Inr r"
  shows "fn_f r = Fin (sum_list os + 10 ^ 5 * w * (\<Sum>c\<leftarrow>cs. (max c 0)\<^sup>2))"
proof -
  let ?inp = "xs @ [Fin w]"
  let ?G = "evalEnergyOnCustom (Input (length inputs) w0) objEngs constrEngs"
  from r have "fn_f r = primary (compile ?G (objEngs @ constrEngs) ?inp)"
    by (auto simp: genOptProblem_def genOptProblem_objectiveAndGradient_def Let_def
        split: sum.splits)
  with compile have f: "fn_f r = evalNum ?inp ?G" by simp
  have w: "evalNum ?inp (Input (length inputs) w0) = Fin w"
    using len by (simp add: num_at_def nth_opt_def nth_append)
  have o: "evalNum ?inp (vsum objEngs) = Fin (sum_list os)"
    by (simp add: vsum_def objs foldl_plus_Fin)
  have "evalNum ?inp (vsum (map toPenalty constrEngs)) =
      foldl (+) (Fin 0) (map (evalNum ?inp) (map toPenalty constrEngs))"
    by (simp add: vsum_def)
  also have "\<dots> = Fin (0 + (\<Sum>c\<leftarrow>cs. (max c 0)\<^sup>2))"
    by (simp only: evalNum_penalties [OF cs] foldl_plus_Fin)
  finally have c: "evalNum ?inp (vsum (map toPenalty constrEngs)) =
      Fin (\<Sum>c\<leftarrow>cs. (max c 0)\<^sup>2)" by simp
  have "evalNum ?inp ?G =
      Fin (sum_list os + (\<Sum>c\<leftarrow>cs. (max c 0)\<^sup>2) * (10 * 10 ^ 4 * w))"
    unfolding evalEnergyOnCustom_def Let_def add_def mul_def
    by (simp add: o c w constraintWeight_def del: evalNum.simps(2) add: evalNum.simps(5,6))
  with f show ?thesis by (simp add: mult.commute mult.left_commute)
qed

theorem builder_oracle_energy_witness:
  "(\<forall>G S inp. primary (pen_compile G S inp) = evalNum inp G) \<and>
   length [Fin 10, Fin 7] = length quad_inputs \<and>
   map (evalNum ([Fin 10, Fin 7] @ [Fin 2])) pen_objEngs = map Fin [10] \<and>
   map (evalNum ([Fin 10, Fin 7] @ [Fin 2])) pen_constrEngs = map Fin [2] \<and>
   objectiveAndGradient
     (genOptProblem (Fin 1) pen_compile quad_inputs pen_objEngs pen_constrEngs)
     (Fin 2) (Some {}) [Fin 10, Fin 7] =
   Inr \<lparr>fn_f = Fin 800010, gradf = [Fin 1, Fin 800000],
        fn_objEngs = [Fin 10], fn_constrEngs = [Fin 2]\<rparr> \<and>
   fn_f \<lparr>fn_f = Fin 800010, gradf = [Fin 1, Fin 800000],
        fn_objEngs = [Fin 10], fn_constrEngs = [Fin 2]\<rparr> =
     Fin (sum_list [10] + 10 ^ 5 * 2 * (\<Sum>c\<leftarrow>[2]. (max c 0)\<^sup>2))"
proof -
  have a: "\<forall>G S inp. primary (pen_compile G S inp) = evalNum inp G"
    by (simp add: pen_compile_def)
  have b: "length [Fin 10, Fin 7] = length quad_inputs"
    by (simp add: quad_inputs_def)
  have c: "map (evalNum ([Fin 10, Fin 7] @ [Fin 2])) pen_objEngs = map Fin [10]"
    by (simp add: pen_objEngs_def num_at_def nth_opt_def)
  have d: "map (evalNum ([Fin 10, Fin 7] @ [Fin 2])) pen_constrEngs = map Fin [2]"
    by (simp add: pen_constrEngs_def num_at_def nth_opt_def minus_number_def)
  from builder_oracle_energy [OF a b c d pen_oracle_eval] a b c d pen_oracle_eval
  show ?thesis by blast
qed

subsection \<open>C1: frozen parameters\<close>

lemma zn_simps [simp]: "zn (Fin 0)" "zn NaN"
  by (simp_all add: zn_def)

lemma zn_times_l: "zn a \<Longrightarrow> zn (a * b)"
  by (cases b) (auto simp: zn_def)

lemma zn_times_r: "zn b \<Longrightarrow> zn (a * b)"
  by (cases a) (auto simp: zn_def)

lemma zn_plus: "zn a \<Longrightarrow> zn b \<Longrightarrow> zn (a + b)"
  by (auto simp: zn_def)

lemma zn_minus: "zn a \<Longrightarrow> zn b \<Longrightarrow> zn (a - b)"
  by (auto simp: zn_def minus_number_def)

lemma zn_minus_same: "same_or_nan a b \<Longrightarrow> zn (a - b)"
  by (cases a; cases b) (auto simp: zn_def same_or_nan_def minus_number_def)

lemma minus_zn: "zn z \<Longrightarrow> a - z = a \<or> a - z = NaN"
  by (cases a) (auto simp: zn_def minus_number_def)

lemma zn_foldl_plus: "zn acc \<Longrightarrow> \<forall>x \<in> set xs. zn x \<Longrightarrow> zn (foldl (+) acc xs)"
  by (induction xs arbitrary: acc) (simp_all add: zn_plus)

lemma zn_sumN: "\<forall>x \<in> set xs. zn x \<Longrightarrow> zn (sumN xs)"
  by (simp add: sumN_def zn_foldl_plus)

lemma num_at_nth: "i < length v \<Longrightarrow> num_at v i = v ! i"
  by (simp add: num_at_def nth_opt_def)

lemma num_at_beyond: "\<not> i < length v \<Longrightarrow> num_at v i = NaN"
  by (simp add: num_at_def nth_opt_def)

lemma num_at_map2:
  "length a = length b \<Longrightarrow>
     num_at (map2 f a b) i = (if i < length a then f (a ! i) (b ! i) else NaN)"
  by (simp add: num_at_def nth_opt_def)

lemma zat_beyond: "\<not> i < length v \<Longrightarrow> zat i v"
  by (simp add: zat_def num_at_beyond)

lemma Matrix_sub_zat:
  "Matrix_sub a b = Inr c \<Longrightarrow> zn (num_at a i - num_at b i) \<Longrightarrow> zat i c"
  by (cases "i < length a")
     (auto simp: Matrix_sub_def zat_def num_at_map2 num_at_nth split: if_splits)

lemma Matrix_sub_zat2:
  "Matrix_sub a b = Inr c \<Longrightarrow> zat i a \<Longrightarrow> zat i b \<Longrightarrow> zat i c"
  by (rule Matrix_sub_zat) (auto simp: zat_def zn_minus)

lemma Matrix_add_zat:
  "Matrix_add a b = Inr c \<Longrightarrow> zat i a \<Longrightarrow> zat i b \<Longrightarrow> zat i c"
  by (cases "i < length a")
     (auto simp: Matrix_add_def zat_def num_at_map2 num_at_nth zn_plus split: if_splits)

lemma Matrix_mul_zat: "zat i v \<Longrightarrow> zat i (Matrix_mul v c)"
  by (cases "i < length v")
     (auto simp: Matrix_mul_def zat_def num_at_nth num_at_beyond zn_times_l)

lemma pull_q_back_zat:
  assumes "pull_q_back acc t = Inr acc'" and "zat i (fst acc)" and "zat i (snd (snd t))"
  shows "zat i (fst acc')"
proof -
  obtain q al where acc: "acc = (q, al)" by (cases acc)
  obtain rho s y where t: "t = (rho, s, y)" by (cases t)
  from assms(1) acc t obtain d where
    "Matrix_sub q (Matrix_mul y (rho * d)) = Inr (fst acc')"
    by (auto simp: Let_def split: sum.splits)
  from Matrix_sub_zat2 [OF this] assms(2,3) acc t show ?thesis
    by (simp add: Matrix_mul_zat)
qed

lemma reduce_pull_zat:
  "reduceM pull_q_back ts acc = Inr acc' \<Longrightarrow> zat i (fst acc) \<Longrightarrow>
     \<forall>t \<in> set ts. zat i (snd (snd t)) \<Longrightarrow> zat i (fst acc')"
proof (induction ts arbitrary: acc)
  case Nil
  then show ?case by simp
next
  case (Cons t ts)
  from Cons.prems(1) obtain a1 where a1: "pull_q_back acc t = Inr a1"
    and rest: "reduceM pull_q_back ts a1 = Inr acc'"
    by (auto split: sum.splits)
  from pull_q_back_zat [OF a1] Cons.prems(2,3) have "zat i (fst a1)" by simp
  from Cons.IH [OF rest this] Cons.prems(3) show ?case by simp
qed

lemma push_r_forward_zat:
  assumes "push_r_forward r t = Inr r'" and "zat i r" and "zat i (fst (snd t))"
  shows "zat i r'"
proof -
  obtain rho al s y where t: "t = ((rho, al), (s, y))" by (cases t) auto
  from assms(1) t obtain c where "Matrix_add r (Matrix_mul s c) = Inr r'"
    by (auto simp: Let_def split: sum.splits)
  from Matrix_add_zat [OF this] assms(2,3) t show ?thesis
    by (simp add: Matrix_mul_zat)
qed

lemma reduce_push_zat:
  "reduceM push_r_forward ts r = Inr r' \<Longrightarrow> zat i r \<Longrightarrow>
     \<forall>t \<in> set ts. zat i (fst (snd t)) \<Longrightarrow> zat i r'"
proof (induction ts arbitrary: r)
  case Nil
  then show ?case by simp
next
  case (Cons t ts)
  from Cons.prems(1) obtain r1 where r1: "push_r_forward r t = Inr r1"
    and rest: "reduceM push_r_forward ts r1 = Inr r'"
    by (auto split: sum.splits)
  from push_r_forward_zat [OF r1] Cons.prems(2,3) have "zat i r1" by simp
  from Cons.IH [OF rest this] Cons.prems(3) show ?case by simp
qed

lemma hess_row_zn:
  assumes "zat i q" and "i < n" and "length q = n"
  shows "\<forall>x \<in> set (map2 (*) (map (\<lambda>x. x * gamma) (map (\<lambda>k. if i = k then Fin 1 else Fin 0) [0..<n])) q).
           zn x"
proof
  fix x
  assume "x \<in> set (map2 (*) (map (\<lambda>x. x * gamma) (map (\<lambda>k. if i = k then Fin 1 else Fin 0) [0..<n])) q)"
  then obtain k where k: "k < n"
    and x: "x = ((if i = k then Fin 1 else Fin 0) * gamma) * (q ! k)"
    using assms(3) by (auto simp: in_set_conv_nth)
  show "zn x"
  proof (cases "i = k")
    case True
    with assms(1,2) have "zn (q ! k)" by (simp add: zat_def num_at_nth assms(3))
    with x show ?thesis by (simp add: zn_times_r)
  next
    case False
    have "zn (Fin 0 * gamma)" by (rule zn_times_l) simp
    with x False show ?thesis by (simp add: zn_times_l)
  qed
qed

lemma hess_mmul_zat:
  assumes "estimate_hess yo so = Inr h" and "Matrix_mmul h q = Inr r" and "zat i q"
  shows "zat i r"
proof (cases "i < length r")
  case False
  then show ?thesis by (rule zat_beyond)
next
  case True
  from assms(1) have "\<exists>n gamma. h = Matrix_scale (Matrix_identity n) gamma"
    by (cases yo; cases so) (auto simp: Let_def split: sum.splits)
  then obtain n gamma where h: "h = Matrix_scale (Matrix_identity n) gamma" by blast
  from assms(2) have r: "r = map (\<lambda>row. sumN (map2 (*) row q)) h"
    and rows: "\<forall>row \<in> set h. length row = length q"
    by (auto simp: Matrix_mmul_def split: if_splits)
  from r h True have i: "i < n"
    by (simp add: Matrix_scale_def Matrix_identity_def)
  with h have hi: "h ! i = map (\<lambda>x. x * gamma)
      (map (\<lambda>k. if i = k then Fin 1 else Fin 0) [0..<n])"
    by (simp add: Matrix_scale_def Matrix_identity_def)
  from h i have "i < length h"
    by (simp add: Matrix_scale_def Matrix_identity_def)
  then have "h ! i \<in> set h" by (rule nth_mem)
  with rows hi have len: "length q = n" by auto
  from r True have "r ! i = sumN (map2 (*) (h ! i) q)" by simp
  with hi hess_row_zn [OF assms(3) i len, of gamma] have "zn (r ! i)"
    by (simp add: zn_sumN)
  with True show ?thesis by (simp add: zat_def num_at_nth)
qed

lemma lbfgsInner_zat:
  assumes "lbfgsInner g ss ys = Inr r" and "zat i g"
    and "\<forall>s \<in> set ss. zat i s" and "\<forall>y \<in> set ys. zat i y"
  shows "zat i r"
proof -
  from assms(1) obtain rhos q alphas h r0 ras where
    pull: "reduceM pull_q_back (zip rhos (zip ss ys)) (g, []) = Inr (q, alphas)"
    and hess: "estimate_hess (nth_opt ys 0) (nth_opt ss 0) = Inr h"
    and mm: "Matrix_mmul h q = Inr r0"
    and push: "reduceM push_r_forward (rev (zip ras (zip ss ys))) r0 = Inr r"
    by (auto simp: lbfgsInner_def zip2_def zip3_def split: sum.splits if_splits prod.splits)
  have "zat i (snd (snd t))" if "t \<in> set (zip rhos (zip ss ys))" for t
  proof -
    obtain a b c where t: "t = (a, b, c)" by (cases t)
    with that have "(b, c) \<in> set (zip ss ys)" by (auto dest: set_zip_rightD)
    then have "c \<in> set ys" by (rule set_zip_rightD)
    with assms(4) t show ?thesis by simp
  qed
  then have "\<forall>t \<in> set (zip rhos (zip ss ys)). zat i (snd (snd t))" by simp
  from reduce_pull_zat [OF pull _ this] assms(2) have "zat i q" by simp
  from hess_mmul_zat [OF hess mm this] have r0: "zat i r0" .
  have "zat i (fst (snd t))" if "t \<in> set (rev (zip ras (zip ss ys)))" for t
  proof -
    obtain a b c where t: "t = (a, b, c)" by (cases t)
    with that have "(b, c) \<in> set (zip ss ys)" by (auto dest: set_zip_rightD)
    then have "b \<in> set ss" by (rule set_zip_leftD)
    with assms(3) t show ?thesis by simp
  qed
  then have "\<forall>t \<in> set (rev (zip ras (zip ss ys))). zat i (fst (snd t))" by simp
  from reduce_push_zat [OF push r0 this] show ?thesis .
qed

lemma hist_inv_default: "hist_inv i v defaultLbfgsParams"
  by (simp add: hist_inv_def defaultLbfgsParams_def)

lemma lbfgs_zat:
  assumes "lbfgs x g info = Inr lr" and "zat i g" and "hist_inv i (num_at x i) info"
  shows "zat i (gradfxsPreconditioned lr) \<and>
         (\<forall>v. same_or_nan v (num_at x i) \<longrightarrow> hist_inv i v (updatedLbfgsInfo lr))"
proof (cases "numUnconstrSteps info = 0")
  case True
  with assms show ?thesis
    by (auto simp: lbfgs_def hist_inv_def)
next
  case False
  with assms(1) obtain ls lg s y gp where ls: "lastState info = Some ls"
    and lg: "lastGrad info = Some lg"
    and s: "Matrix_sub x ls = Inr s" and y: "Matrix_sub g lg = Inr y"
    and inner: "lbfgsInner g (take (memSize info) (s # s_list info))
                  (take (memSize info) (y # y_list info)) = Inr gp"
    and lr: "lr = \<lparr>gradfxsPreconditioned = g,
                   updatedLbfgsInfo = info\<lparr>lastState := Some x, lastGrad := Some g,
                     s_list := [], y_list := [], numUnconstrSteps := 1\<rparr>\<rparr> \<or>
             lr = \<lparr>gradfxsPreconditioned = gp,
                   updatedLbfgsInfo = info\<lparr>lastState := Some x, lastGrad := Some g,
                     s_list := take (memSize info) (s # s_list info),
                     y_list := take (memSize info) (y # y_list info),
                     numUnconstrSteps := numUnconstrSteps info + 1\<rparr>\<rparr>"
    by (auto simp: lbfgs_def Let_def split: option.splits sum.splits if_splits)
  from assms(3) ls have "zn (num_at x i - num_at ls i)"
    by (simp add: hist_inv_def zn_minus_same)
  from Matrix_sub_zat [OF s this] have zs: "zat i s" .
  from assms(3) lg have "zat i lg" by (simp add: hist_inv_def)
  from Matrix_sub_zat2 [OF y assms(2) this] have zy: "zat i y" .
  have ss: "\<forall>s' \<in> set (take (memSize info) (s # s_list info)). zat i s'"
    using zs assms(3) by (auto simp: hist_inv_def dest!: in_set_takeD)
  have ys: "\<forall>y' \<in> set (take (memSize info) (y # y_list info)). zat i y'"
    using zy assms(3) by (auto simp: hist_inv_def dest!: in_set_takeD)
  from lbfgsInner_zat [OF inner assms(2) ss ys] have "zat i gp" .
  with lr assms(2) ss ys show ?thesis
    by (auto simp: hist_inv_def)
qed

lemma mapM_nth:
  "mapM g xs = Inr ys \<Longrightarrow>
     length ys = length xs \<and> (\<forall>k < length xs. g (xs ! k) = Inr (ys ! k))"
proof (induction xs arbitrary: ys)
  case Nil
  then show ?case by simp
next
  case (Cons x xs)
  from Cons.prems obtain y ys' where y: "g x = Inr y" and ys': "mapM g xs = Inr ys'"
    and ys: "ys = y # ys'"
    by (auto split: sum.splits)
  from Cons.IH [OF ys'] y ys show ?case
    by (auto simp: nth_Cons split: nat.splits)
qed

lemma builder_oracle_masks:
  "masks F (genOptProblem_objectiveAndGradient inputs f nObj w (Some F))"
  unfolding masks_def
proof (intro allI impI ballI)
  fix xs r i
  assume r: "genOptProblem_objectiveAndGradient inputs f nObj w (Some F) xs = Inr r"
    and i: "i \<in> F"
  from r have m: "mapM (maskedGradient inputs (Some F) (gradient (f (xs @ [w]))))
      [0..<length xs] = Inr (gradf r)"
    by (auto simp: genOptProblem_objectiveAndGradient_def Let_def split: sum.splits)
  show "zat i (gradf r)"
  proof (cases "i < length (gradf r)")
    case False
    then show ?thesis by (rule zat_beyond)
  next
    case True
    with mapM_nth [OF m] have
      "maskedGradient inputs (Some F) (gradient (f (xs @ [w]))) i = Inr (gradf r ! i)"
      by auto
    with i have "gradf r ! i = Fin 0"
      by (auto simp: maskedGradient_def split: option.splits)
    with True show ?thesis by (simp add: zat_def num_at_nth)
  qed
qed

lemma minimize_body_facts:
  assumes "minimize_body f s = Inr (Break s') \<or> minimize_body f s = Inr (Continue s')"
  shows "\<exists>r lr. f (m_xs s) = Inr r \<and>
           lbfgs (m_xs s) (gradf r) (m_newLbfgsInfo s) = Inr lr \<and>
           m_newLbfgsInfo s' = updatedLbfgsInfo lr \<and>
           (m_xs s' = m_xs s \<or>
            m_xs s' = map (\<lambda>j. m_xs s ! j - m_t s' * num_at (gradfxsPreconditioned lr) j)
                        [0..<length (m_xs s)])"
  using assms
  by (auto simp: minimize_body_def Let_def split: sum.splits if_splits)

lemma minimize_body_frozen:
  assumes m: "masks F f" and i: "i \<in> F" and inv: "frozen_loop_inv i c n s"
    and body: "minimize_body f s = Inr (Break s') \<or> minimize_body f s = Inr (Continue s')"
  shows "frozen_loop_inv i c n s'"
proof -
  from minimize_body_facts [OF body] obtain r lr where r: "f (m_xs s) = Inr r"
    and lr: "lbfgs (m_xs s) (gradf r) (m_newLbfgsInfo s) = Inr lr"
    and info: "m_newLbfgsInfo s' = updatedLbfgsInfo lr"
    and xs: "m_xs s' = m_xs s \<or>
       m_xs s' = map (\<lambda>j. m_xs s ! j - m_t s' * num_at (gradfxsPreconditioned lr) j)
                   [0..<length (m_xs s)]"
    by blast
  from m r i have g: "zat i (gradf r)" by (auto simp: masks_def)
  from inv have h: "hist_inv i (num_at (m_xs s) i) (m_newLbfgsInfo s)"
    and x: "num_at (m_xs s) i = c \<or> num_at (m_xs s) i = NaN"
    and len: "length (m_xs s) = n"
    by (simp_all add: frozen_loop_inv_def)
  from lbfgs_zat [OF lr g h] have gp: "zat i (gradfxsPreconditioned lr)"
    and hi: "\<And>v. same_or_nan v (num_at (m_xs s) i) \<Longrightarrow> hist_inv i v (updatedLbfgsInfo lr)"
    by blast+
  have x': "num_at (m_xs s') i = num_at (m_xs s) i \<or> num_at (m_xs s') i = NaN"
    using xs
  proof
    assume "m_xs s' = m_xs s"
    then show ?thesis by simp
  next
    assume t: "m_xs s' = map (\<lambda>j. m_xs s ! j - m_t s' * num_at (gradfxsPreconditioned lr) j)
                         [0..<length (m_xs s)]"
    show ?thesis
    proof (cases "i < length (m_xs s)")
      case True
      from gp have "zn (m_t s' * num_at (gradfxsPreconditioned lr) i)"
        by (simp add: zat_def zn_times_r)
      from minus_zn [OF this, of "m_xs s ! i"] True show ?thesis
        by (subst (1 2) t) (simp add: num_at_nth)
    next
      case False
      then show ?thesis by (subst (2) t) (simp add: num_at_beyond)
    qed
  qed
  have len': "length (m_xs s') = n"
    using xs
  proof
    assume "m_xs s' = m_xs s"
    with len show ?thesis by simp
  next
    assume "m_xs s' = map (\<lambda>j. m_xs s ! j - m_t s' * num_at (gradfxsPreconditioned lr) j)
                         [0..<length (m_xs s)]"
    then have "length (m_xs s') = length (m_xs s)" by (metis length_map length_upt minus_nat.diff_0)
    with len show ?thesis by simp
  qed
  from x x' have c: "num_at (m_xs s') i = c \<or> num_at (m_xs s') i = NaN" by auto
  from x' have "same_or_nan (num_at (m_xs s') i) (num_at (m_xs s) i)"
    by (auto simp: same_or_nan_def)
  from hi [OF this] have h1: "hist_inv i (num_at (m_xs s') i) (updatedLbfgsInfo lr)" .
  from x have "same_or_nan c (num_at (m_xs s) i)" by (auto simp: same_or_nan_def)
  from hi [OF this] have h2: "hist_inv i c (updatedLbfgsInfo lr)" .
  from len' c h1 h2 info show ?thesis by (simp add: frozen_loop_inv_def)
qed

lemma minimize_frozen:
  assumes m: "masks F f" and i: "i \<in> F"
    and h: "hist_inv i (num_at xs0 i) info"
    and res: "minimize xs0 f info k = Inr res"
  shows "length (oi_xs res) = length xs0 \<and>
         (num_at (oi_xs res) i = num_at xs0 i \<or> num_at (oi_xs res) i = NaN) \<and>
         hist_inv i (num_at (oi_xs res) i) (oi_newLbfgsInfo res) \<and>
         hist_inv i (num_at xs0 i) (oi_newLbfgsInfo res)"
proof -
  from res obtain st where
    loop: "minimize_loop f k
                \<lparr>m_xs = xs0, m_fxs = Fin 0,
                 m_gradfxs = repeat (length xs0) (Fin 0),
                 m_gradientPreconditioned = repeat (length xs0) (Fin 0),
                 m_normGradfxs = Fin 0, m_i = 0, m_t = Fin (1 / 10000),
                 m_failed = False, m_objEngs = [], m_constrEngs = [],
                 m_newLbfgsInfo = info\<rparr> = Inr st"
    and r: "oi_xs res = m_xs st" "oi_newLbfgsInfo res = m_newLbfgsInfo st"
    by (auto simp: minimize_def split: if_splits sum.splits)
  have "frozen_loop_inv i (num_at xs0 i) (length xs0) st"
    by (rule minimize_loop_invariant [OF loop,
          where P = "frozen_loop_inv i (num_at xs0 i) (length xs0)"])
       (simp add: frozen_loop_inv_def h, rule minimize_body_frozen [OF m i])
  with r show ?thesis by (simp add: frozen_loop_inv_def)
qed

lemma minimize_body_length:
  assumes "minimize_body f s = Inr (Break s') \<or> minimize_body f s = Inr (Continue s')"
  shows "length (m_xs s') = length (m_xs s)"
proof -
  from minimize_body_facts [OF assms] obtain r lr where "f (m_xs s) = Inr r"
    and "lbfgs (m_xs s) (gradf r) (m_newLbfgsInfo s) = Inr lr"
    and "m_newLbfgsInfo s' = updatedLbfgsInfo lr"
    and xs: "m_xs s' = m_xs s \<or>
       m_xs s' = map (\<lambda>j. m_xs s ! j - m_t s' * num_at (gradfxsPreconditioned lr) j)
                   [0..<length (m_xs s)]"
    by blast
  from xs show ?thesis
  proof
    assume "m_xs s' = m_xs s"
    then show ?thesis by simp
  next
    assume "m_xs s' = map (\<lambda>j. m_xs s ! j - m_t s' * num_at (gradfxsPreconditioned lr) j)
                 [0..<length (m_xs s)]"
    then show ?thesis by (metis length_map length_upt minus_nat.diff_0)
  qed
qed

lemma minimize_length:
  assumes "minimize xs0 f info k = Inr res"
  shows "length (oi_xs res) = length xs0"
proof -
  from assms obtain st where
    loop: "minimize_loop f k
                \<lparr>m_xs = xs0, m_fxs = Fin 0,
                 m_gradfxs = repeat (length xs0) (Fin 0),
                 m_gradientPreconditioned = repeat (length xs0) (Fin 0),
                 m_normGradfxs = Fin 0, m_i = 0, m_t = Fin (1 / 10000),
                 m_failed = False, m_objEngs = [], m_constrEngs = [],
                 m_newLbfgsInfo = info\<rparr> = Inr st"
    and r: "oi_xs res = m_xs st"
    by (auto simp: minimize_def split: if_splits sum.splits)
  have "length (m_xs st) = length xs0"
    by (rule minimize_loop_invariant [OF loop, where P = "\<lambda>s. length (m_xs s) = length xs0"])
       (simp_all add: minimize_body_length)
  with r show ?thesis by simp
qed

lemma step_frozen_running:
  assumes inv: "frozen_inv inputs f nObj s"
    and st: "optStatus (params s) = UnconstrainedRunning"
    and step: "step w s k = Inr s'"
  shows "frozen_inv inputs f nObj s' \<and> frozenValues s' = frozenValues s \<and>
         length (varyingValues s') = length (varyingValues s) \<and>
         (\<forall>i \<in> frozenValues s.
            num_at (varyingValues s') i = num_at (varyingValues s) i \<or>
            num_at (varyingValues s') i = NaN)"
proof -
  let ?F = "frozenValues s"
  let ?x = "varyingValues s"
  from inv st have fac: "objectiveAndGradient (params s) =
      genOptProblem_objectiveAndGradient inputs f nObj"
    and cur: "currObjectiveAndGradient (params s) =
      objectiveAndGradient (params s) (weight (params s)) (Some ?F)"
    and hist: "\<forall>i \<in> ?F. hist_inv i (num_at ?x i) (lbfgsInfo (params s))"
    by (auto simp: frozen_inv_def)
  from fac cur have m: "masks ?F (currObjectiveAndGradient (params s))"
    by (simp add: builder_oracle_masks)
  from step st obtain res where
    res: "minimize ?x (currObjectiveAndGradient (params s)) (lbfgsInfo (params s)) k = Inr res"
    by (auto simp: step_def Let_def split: sum.splits)
  have fr: "(num_at (oi_xs res) i = num_at ?x i \<or> num_at (oi_xs res) i = NaN) \<and>
         hist_inv i (num_at (oi_xs res) i) (oi_newLbfgsInfo res) \<and>
         hist_inv i (num_at ?x i) (oi_newLbfgsInfo res)" if "i \<in> ?F" for i
    using minimize_frozen [OF m that _ res] hist that by blast
  have len: "length (oi_xs res) = length ?x"
    by (rule minimize_length [OF res])
  from step st res have s': "\<exists>p'. (s' = s\<lparr>params := p'\<rparr> \<or> s' = s\<lparr>varyingValues := oi_xs res, params := p'\<rparr>) \<and>
      objectiveAndGradient p' = objectiveAndGradient (params s) \<and>
      currObjectiveAndGradient p' = currObjectiveAndGradient (params s) \<and>
      weight p' = weight (params s) \<and> optStatus p' \<noteq> NewIter \<and>
      (lbfgsInfo p' = oi_newLbfgsInfo res \<or> lbfgsInfo p' = defaultLbfgsParams)"
    by (auto simp: step_def Let_def split: if_splits)
  then obtain p' where
    alt: "s' = s\<lparr>params := p'\<rparr> \<or> s' = s\<lparr>varyingValues := oi_xs res, params := p'\<rparr>"
    and p': "objectiveAndGradient p' = objectiveAndGradient (params s)"
      "currObjectiveAndGradient p' = currObjectiveAndGradient (params s)"
      "weight p' = weight (params s)" "optStatus p' \<noteq> NewIter"
    and li: "lbfgsInfo p' = oi_newLbfgsInfo res \<or> lbfgsInfo p' = defaultLbfgsParams"
    by blast
  from li fr have h: "\<forall>i \<in> ?F. hist_inv i (num_at (oi_xs res) i) (lbfgsInfo p') \<and>
      hist_inv i (num_at ?x i) (lbfgsInfo p')"
    by (auto simp: hist_inv_default)
  from alt show ?thesis
  proof
    assume "s' = s\<lparr>params := p'\<rparr>"
    with p' h fac cur show ?thesis by (simp add: frozen_inv_def)
  next
    assume "s' = s\<lparr>varyingValues := oi_xs res, params := p'\<rparr>"
    with p' h fac cur fr len show ?thesis by (simp add: frozen_inv_def)
  qed
qed

lemma quad_factory:
  "objectiveAndGradient quad_params =
     genOptProblem_objectiveAndGradient quad_inputs quad_f (length quad_objEngs)"
  by (simp add: quad_params_def genOptProblem_def Let_def quad_f_def)

lemma quad_frozen_oracle:
  "0 \<notin> F \<Longrightarrow> Suc 0 \<in> F \<Longrightarrow>
   objectiveAndGradient quad_params (Fin w) (Some F) [a, b] =
     Inr \<lparr>fn_f = Fin 0 + Fin (1 / 2) * (a * a + b * b) + Fin 0 * (Fin 100000 * Fin w),
          gradf = [a, Fin 0],
          fn_objEngs = [Fin (1 / 2) * (a * a + b * b)], fn_constrEngs = []\<rparr>"
  apply (simp add: quad_factory quad_f_def quad_oracle_eval)
  apply (simp add: quad_params_def genOptProblem_def Let_def evalEnergyOnCustom_def vsum_def
      add_def mul_def quad_objEngs_def num_at_def nth_opt_def constraintWeight_def
      quad_inputs_def)
  done

lemma quad_step_unfrozen:
  "step (Fin 1) quad_state 1 =
     Inr (quad_state
          \<lparr>varyingValues := [Fin 0, Fin 0],
           params := quad_params
             \<lparr>lastUOstate := Some [Fin 0, Fin 0],
              lastUOenergy := Some (Fin (149 / 2)),
              UOround := Suc (UOround quad_params),
              lbfgsInfo :=
                \<lparr>lastState = Some [Fin 10, Fin 7], lastGrad = Some [Fin 10, Fin 7],
                 s_list = [], y_list = [], numUnconstrSteps = Suc 0, memSize = 17\<rparr>,
              lastGradient := [Fin 10, Fin 7],
              lastGradientPreconditioned := [Fin 10, Fin 7],
              lastConstrEnergies := Some [],
              lastObjEnergies := Some [Fin (149 / 2)],
              optStatus := UnconstrainedRunning\<rparr>\<rparr>)"
  by (simp add: step_def Let_def quad_minimize_one unconstrainedConverged2_def uoStop_def)

lemma quad_newiter_step:
  "step (Fin 1) (quad_state_with NewIter) 1 = Inr quad_state_frozen"
  by (simp add: step_def Let_def quad_state_with_def quad_state_frozen_def quad_state_def)

lemma quad_frozen_step:
  "\<exists>s'. step (Fin 1) quad_state_frozen 1 = Inr s' \<and> varyingValues s' = [Fin 0, Fin 7]"
  apply (simp add: step_def quad_state_frozen_def Let_def minimize_def MIN_STEPS_def repeat_def)
  apply (subst minimize_loop.simps)
  apply (simp add: min_eval quad_frozen_oracle)
  apply (simp add: awLineSearch2_def quad_frozen_oracle negv_def dot_def sumN_def Let_def)
  apply (subst awLoop.simps, simp add: ls_eval quad_frozen_oracle)+
  apply (simp add: min_eval)
  apply (subst minimize_loop.simps)
  apply (simp add: unconstrainedConverged2_def uoStop_def Let_def)
  done

text \<open>
  Claim C1 says that every frozen component keeps its value in all states \<open>step\<close>
  returns, starting from the builder's initial state, and that with
  \<open>frozenValues = {1}\<close> and \<open>x\<^sub>0 = (10, 7)\<close> every returned state has \<open>x[1] = 7\<close>. The
  builder binds its first oracle to the empty set (\<open>objectiveAndGradient(weight, new
  Set())\<close>) and leaves the status at \<open>UnconstrainedRunning\<close>, so the first round does not
  mask index 1: one step from the builder's state of the example moves \<open>x\<close> to \<open>(0, 0)\<close>.
\<close>

theorem builder_state_frozen_counterexample:
  "params quad_state = genOptProblem (Fin 1) quad_compile quad_inputs quad_objEngs [] \<and>
   frozenValues quad_state = {1} \<and> varyingValues quad_state = [Fin 10, Fin 7] \<and>
   (case step (Fin 1) quad_state 1 of Inl e \<Rightarrow> False
    | Inr s' \<Rightarrow> varyingValues s' = [Fin 0, Fin 0] \<and> varyingValues s' ! 1 \<noteq> Fin 7)"
  by (simp add: quad_step_unfrozen) (simp add: quad_params_def)

text \<open>
  Claim C1, amended. Take a state on the builder's oracle factory that is in status
  \<open>NewIter\<close>, or whose current oracle is the factory's oracle for the state's weight and
  \<open>frozenValues\<close> and whose L-BFGS memory is zero (or \<open>NaN\<close>) at the frozen indices. Every
  state \<open>step\<close> returns from it is again such a state, has the same \<open>frozenValues\<close> and
  the same number of parameters, and each frozen component \<open>x[i]\<close> is the value it was, or
  \<open>NaN\<close>. So from a \<open>NewIter\<close> state on, frozen components never take another numeric
  value; with \<open>frozenValues = {1}\<close> and \<open>x\<^sub>0 = (10, 7)\<close> the example keeps \<open>x[1] = 7\<close>.
\<close>

theorem step_frozen_components:
  assumes inv: "frozen_inv inputs f nObj s" and step: "step w s k = Inr s'"
  shows "frozen_inv inputs f nObj s' \<and> frozenValues s' = frozenValues s \<and>
         length (varyingValues s') = length (varyingValues s) \<and>
         (\<forall>i \<in> frozenValues s. i < length (varyingValues s) \<longrightarrow>
            varyingValues s' ! i = varyingValues s ! i \<or> varyingValues s' ! i = NaN)"
proof -
  have "frozen_inv inputs f nObj s' \<and> frozenValues s' = frozenValues s \<and>
         length (varyingValues s') = length (varyingValues s) \<and>
         (\<forall>i \<in> frozenValues s.
            num_at (varyingValues s') i = num_at (varyingValues s) i \<or>
            num_at (varyingValues s') i = NaN)"
  proof (cases "optStatus (params s)")
    case NewIter
    with inv step show ?thesis
      by (auto simp: step_def Let_def frozen_inv_def hist_inv_default)
  next
    case UnconstrainedRunning
    from step_frozen_running [OF inv this step] show ?thesis .
  next
    case UnconstrainedConverged
    with inv step show ?thesis
      by (auto simp: step_def Let_def frozen_inv_def split: sum.splits if_splits)
  next
    case EPConverged
    with inv step show ?thesis by (auto simp: step_def Let_def)
  next
    case Error
    with inv step show ?thesis by (auto simp: step_def Let_def)
  qed
  then show ?thesis by (auto simp: num_at_nth)
qed

theorem step_frozen_components_witness:
  "frozen_inv quad_inputs quad_f (length quad_objEngs) (quad_state_with NewIter) \<and>
   step (Fin 1) (quad_state_with NewIter) 1 = Inr quad_state_frozen \<and>
   frozen_inv quad_inputs quad_f (length quad_objEngs) quad_state_frozen \<and>
   frozenValues quad_state_frozen = {1} \<and>
   varyingValues quad_state_frozen = [Fin 10, Fin 7] \<and>
   (\<exists>s'. step (Fin 1) quad_state_frozen 1 = Inr s' \<and>
         varyingValues s' = [Fin 0, Fin 7] \<and>
         frozen_inv quad_inputs quad_f (length quad_objEngs) s' \<and>
         frozenValues s' = {1})"
proof -
  have h0: "frozen_inv quad_inputs quad_f (length quad_objEngs) (quad_state_with NewIter)"
    by (simp add: frozen_inv_def quad_state_with_def quad_factory)
  from step_frozen_components [OF h0 quad_newiter_step]
  have h1: "frozen_inv quad_inputs quad_f (length quad_objEngs) quad_state_frozen"
    by simp
  have f1: "frozenValues quad_state_frozen = {1}"
    "varyingValues quad_state_frozen = [Fin 10, Fin 7]"
    by (simp_all add: quad_state_frozen_def)
  from quad_frozen_step obtain s' where s': "step (Fin 1) quad_state_frozen 1 = Inr s'"
    and x: "varyingValues s' = [Fin 0, Fin 7]" by blast
  from step_frozen_components [OF h1 s'] f1
  have "frozen_inv quad_inputs quad_f (length quad_objEngs) s'" "frozenValues s' = {1}"
    by simp_all
  with h0 quad_newiter_step h1 f1 s' x show ?thesis by blast
qed

text \<open>
  The \<open>NaN\<close> alternative of the statement of C1 does occur: from the state
  \<open>quad_state_breakdown\<close>, which satisfies the invariant, one step turns the frozen
  parameter \<open>7\<close> into \<open>NaN\<close>.
\<close>

lemma frozen_component_breakdown:
  "frozen_inv quad_inputs quad_f (length quad_objEngs) quad_state_breakdown \<and>
   (\<exists>s'. step (Fin 1) quad_state_breakdown 1 = Inr s' \<and> varyingValues s' = [NaN, NaN])"
proof
  show "frozen_inv quad_inputs quad_f (length quad_objEngs) quad_state_breakdown"
    by (simp add: frozen_inv_def quad_state_breakdown_def quad_state_frozen_def quad_factory
        hist_inv_def same_or_nan_def zat_def num_at_def nth_opt_def)
  show "\<exists>s'. step (Fin 1) quad_state_breakdown 1 = Inr s' \<and> varyingValues s' = [NaN, NaN]"
    apply (simp add: step_def quad_state_breakdown_def quad_state_frozen_def Let_def minimize_def
        MIN_STEPS_def repeat_def)
    apply (subst minimize_loop.simps)
    apply (simp add: containsNaN_False quad_frozen_oracle lbfgs_eval BREAK_EARLY_def
        USE_LINE_SEARCH_def unconstrainedConverged2_def uoStop_def dot_def)
    apply (simp add: awLineSearch2_def quad_frozen_oracle negv_def dot_def sumN_def Let_def)
    apply (subst awLoop.simps, simp add: ls_eval quad_frozen_oracle)+
    apply (simp add: min_eval)
    apply (subst minimize_loop.simps)
    apply (simp add: unconstrainedConverged2_def uoStop_def Let_def)
    done
qed

end
